theory Spec2Isabelle
  imports Complex_Main "HOL-Library.Char_ord" "HOL-Library.List_Lexorder" "HOL-Library.AList" "HOL-Library.Multiset"
begin

section \<open>Python values\<close>

text \<open>
  Floating-point numbers are idealised as reals. The two special values the code
  produces on purpose, \<^verbatim>\<open>float("inf")\<close> and \<^verbatim>\<open>float("nan")\<close>, are kept as
  constructors of their own. Strings are ordered as Python orders them, character by
  character.
\<close>

datatype error = ValueError string | KeyError string | IndexError string | BackboneError string

datatype pyfloat = Finite real | PosInf | NaN

text \<open>Python's \<^verbatim>\<open><\<close> on floats: every comparison with NaN is false.\<close>

fun flt :: "pyfloat \<Rightarrow> pyfloat \<Rightarrow> bool" where
  "flt (Finite a) (Finite b) = (a < b)"
| "flt (Finite a) PosInf = True"
| "flt _ _ = False"

text \<open>
  \<^verbatim>\<open>abs(a - b) < 1e-6\<close>: with an infinite or NaN operand the difference is infinite or NaN
  and the comparison is false.
\<close>

fun within_tol :: "pyfloat \<Rightarrow> pyfloat \<Rightarrow> bool" where
  "within_tol (Finite a) (Finite b) = (\<bar>a - b\<bar> < 1 / 10 ^ 6)"
| "within_tol _ _ = False"

text \<open>A list of results, the first error winning (a comprehension that raises).\<close>

fun collect :: "(error + 'a) list \<Rightarrow> error + 'a list" where
  "collect [] = Inr []"
| "collect (x # xs) =
     (case x of
        Inl e \<Rightarrow> Inl e
      | Inr v \<Rightarrow> (case collect xs of Inl e \<Rightarrow> Inl e | Inr vs \<Rightarrow> Inr (v # vs)))"

text \<open>\<^verbatim>\<open>Series.unique()\<close>: the distinct values in order of first appearance.\<close>

definition unique :: "'a list \<Rightarrow> 'a list" where
  "unique xs = rev (remdups (rev xs))"

text \<open>A dict built by a comprehension: a later value for a key replaces the earlier one,
  the key keeps its place.\<close>

definition dict_of :: "('k \<times> 'v) list \<Rightarrow> ('k \<times> 'v) list" where
  "dict_of kvs = fold (\<lambda>(k, v). AList.update k v) kvs []"

definition mean :: "real list \<Rightarrow> real" where
  "mean xs = sum_list xs / real (length xs)"

section \<open>Synthetic control (models/causal\_plus.py)\<close>

text \<open>The panel: one row per observation, with the unit, period and outcome columns.\<close>

record panel_row =
  unit_id :: string
  period :: string
  outcome :: real

record SyntheticControlResult =
  treated_unit :: string
  donor_units :: "string list"
  weights :: "(string \<times> real) list"
  pre_rmse :: pyfloat
  post_gap_mean :: pyfloat
  n_pre :: nat
  n_post :: nat

text \<open>The panel is keyed by unit and period: no two rows share both.\<close>

definition panel_keyed :: "panel_row list \<Rightarrow> bool" where
  "panel_keyed d = distinct (map (\<lambda>r. (unit_id r, period r)) d)"

text \<open>
  \<^verbatim>\<open>s.reindex(times)\<close> raises on an index with duplicate labels; otherwise it looks each
  period up, a missing one giving NaN (\<open>None\<close>).
\<close>

definition reindex :: "(string \<times> real) list \<Rightarrow> string list \<Rightarrow> error + real option list" where
  "reindex s ts =
     (if distinct (map fst s) then Inr (map (map_of s) ts)
      else Inl (ValueError ''cannot reindex on an axis with duplicate labels''))"

fun ffill :: "real option \<Rightarrow> real option list \<Rightarrow> real option list" where
  "ffill prev [] = []"
| "ffill prev (None # xs) = prev # ffill prev xs"
| "ffill prev (Some v # xs) = Some v # ffill (Some v) xs"

definition fillna :: "real \<Rightarrow> real option list \<Rightarrow> real list" where
  "fillna c xs = map (\<lambda>x. case x of None \<Rightarrow> c | Some v \<Rightarrow> v) xs"

text \<open>The inner function \<^verbatim>\<open>_series(u, times)\<close>.\<close>

definition series :: "panel_row list \<Rightarrow> string \<Rightarrow> string list \<Rightarrow> error + real list" where
  "series d u ts =
     (case reindex (map (\<lambda>r. (period r, outcome r)) (filter (\<lambda>r. unit_id r = u) d)) ts of
        Inl e \<Rightarrow> Inl e
      | Inr s \<Rightarrow> Inr (fillna 0 (ffill None s)))"

definition vstack :: "real list list \<Rightarrow> error + real list list" where
  "vstack arrays =
     (if arrays = [] then Inl (ValueError ''need at least one array to concatenate'')
      else Inr arrays)"

text \<open>
  The matrix \<^verbatim>\<open>X\<close> (periods by donors) is kept as the list \<open>cols\<close> of its columns, one
  series per donor, as \<^verbatim>\<open>vstack\<close> returns it before \<^verbatim>\<open>.T\<close>.
  \<open>mat_vec cols w\<close> is \<^verbatim>\<open>X @ w\<close> and \<open>matT_vec cols r\<close> is \<^verbatim>\<open>X.T @ r\<close>.
\<close>

definition mat_vec :: "real list list \<Rightarrow> real list \<Rightarrow> real list" where
  "mat_vec cols w = map (\<lambda>row. sum_list (map2 (*) row w)) (transpose cols)"

definition matT_vec :: "real list list \<Rightarrow> real list \<Rightarrow> real list" where
  "matT_vec cols r = map (\<lambda>col. sum_list (map2 (*) col r)) cols"

definition grad :: "real list list \<Rightarrow> real list \<Rightarrow> real list \<Rightarrow> real list" where
  "grad cols Y w =
     map (\<lambda>g. - 2 * g / real (max 1 (length Y))) (matT_vec cols (map2 (-) Y (mat_vec cols w)))"

text \<open>One pass of the loop body: gradient step, clip at zero, renormalise when the sum is
  positive.\<close>

definition pgd_step :: "real list list \<Rightarrow> real list \<Rightarrow> real list \<Rightarrow> real list" where
  "pgd_step cols Y w =
     (let w1 = map2 (\<lambda>wi gi. wi - (5 / 100) * gi) w (grad cols Y w);
          w2 = map (max 0) w1;
          s = sum_list w2
      in if s > 0 then map (\<lambda>x. x / s) w2 else w2)"

definition fit_weights :: "real list list \<Rightarrow> real list \<Rightarrow> real list" where
  "fit_weights cols Y =
     ((pgd_step cols Y) ^^ 4000) (replicate (length cols) (1 / real (length cols)))"

definition rmse :: "real list \<Rightarrow> real list \<Rightarrow> pyfloat" where
  "rmse Y yhat =
     (if length Y \<noteq> 0 then Finite (sqrt (mean (map (\<lambda>e. e ^ 2) (map2 (-) Y yhat)))) else NaN)"

definition post_gap ::
  "panel_row list \<Rightarrow> string \<Rightarrow> string list \<Rightarrow> string list \<Rightarrow> real list \<Rightarrow> error + pyfloat" where
  "post_gap d treated donors post_times w =
     (if post_times \<noteq> [] then
        (case series d treated post_times of
           Inl e \<Rightarrow> Inl e
         | Inr Yt_post \<Rightarrow>
             (case collect (map (\<lambda>u. series d u post_times) donors) of
                Inl e \<Rightarrow> Inl e
              | Inr arrays \<Rightarrow>
                  (case vstack arrays of
                     Inl e \<Rightarrow> Inl e
                   | Inr cols \<Rightarrow> Inr (Finite (mean (map2 (-) Yt_post (mat_vec cols w)))))))
      else Inr NaN)"

text \<open>\<^verbatim>\<open>donor_units or sorted([u for u in d[unit_col].unique() if u != treated_unit])\<close>:
  an absent or empty list gives every other unit of the panel.\<close>

definition donor_list :: "panel_row list \<Rightarrow> string \<Rightarrow> string list option \<Rightarrow> string list" where
  "donor_list d treated donor_units_arg =
     (case donor_units_arg of
        Some ds \<Rightarrow> if ds \<noteq> [] then ds else sort (filter (\<lambda>u. u \<noteq> treated) (unique (map unit_id d)))
      | None \<Rightarrow> sort (filter (\<lambda>u. u \<noteq> treated) (unique (map unit_id d))))"

definition synthetic_control ::
  "panel_row list \<Rightarrow> string \<Rightarrow> string \<Rightarrow> string list option \<Rightarrow> error + SyntheticControlResult" where
  "synthetic_control d treated intervention_time donor_units_arg =
     (let donors = donor_list d treated donor_units_arg;
          all_times = sort (unique (map period d));
          pre_times = filter (\<lambda>t. t < intervention_time) all_times;
          post_times = filter (\<lambda>t. intervention_time \<le> t) all_times
      in case series d treated pre_times of
           Inl e \<Rightarrow> Inl e
         | Inr Yt_pre \<Rightarrow>
             (case collect (map (\<lambda>u. series d u pre_times) donors) of
                Inl e \<Rightarrow> Inl e
              | Inr arrays \<Rightarrow>
                  (case vstack arrays of
                     Inl e \<Rightarrow> Inl e
                   | Inr cols \<Rightarrow>
                       (let w = fit_weights cols Yt_pre in
                        case post_gap d treated donors post_times w of
                          Inl e \<Rightarrow> Inl e
                        | Inr gap \<Rightarrow>
                            Inr \<lparr>treated_unit = treated,
                                 donor_units = donors,
                                 weights = dict_of (zip donors w),
                                 pre_rmse = rmse Yt_pre (mat_vec cols w),
                                 post_gap_mean = gap,
                                 n_pre = length pre_times,
                                 n_post = length post_times\<rparr>))))"

section \<open>The regression backbone\<close>

text \<open>
  Ordinary least squares is the work of an external library. It is a parameter of every
  estimator below: a function from the design (the covariance option, the names of the
  regressors, the design rows, the fixed-effect labels of each row and the outcomes) to a
  fitted model, or to the message of the exception it raised. The estimators' own theorems
  hold for every such function.
\<close>

datatype cov_type = NonRobust | HAC nat | Cluster "string list"

record ols_fit =
  exog_names :: "string list"
  params :: "real list"
  pvalues :: "real list"
  nobs :: nat
  rsquared :: real
  aic :: real
  bic :: real

text \<open>The regression handed over: the regressors' names, one design row and one list of
  fixed-effect labels per observation, and the outcomes.\<close>

record design =
  dm_cov :: cov_type
  dm_names :: "string list"
  dm_rows :: "real list list"
  dm_fe :: "string list list"
  dm_y :: "real list"

type_synonym backbone = "design \<Rightarrow> string + ols_fit"

text \<open>Positional and label-based access to a fitted vector.\<close>

definition at_pos :: "real list \<Rightarrow> nat \<Rightarrow> error + real" where
  "at_pos xs i = (if i < length xs then Inr (xs ! i) else Inl (IndexError ''index out of bounds''))"

fun index_of :: "string \<Rightarrow> string list \<Rightarrow> nat option" where
  "index_of x [] = None"
| "index_of x (y # ys) = (if x = y then Some 0 else map_option Suc (index_of x ys))"

definition at_label :: "string list \<Rightarrow> real list \<Rightarrow> string \<Rightarrow> error + real" where
  "at_label names xs x =
     (case index_of x names of None \<Rightarrow> Inl (KeyError x) | Some i \<Rightarrow> at_pos xs i)"

text \<open>A backbone for the concrete runs below: it answers every design with the zero
  coefficient vector. What the runs show is which branch the estimator takes, not the
  numbers of a fit.\<close>

definition zero_fit :: backbone where
  "zero_fit dm =
     Inr \<lparr>exog_names = dm_names dm, params = replicate (length (dm_names dm)) 0,
          pvalues = replicate (length (dm_names dm)) 1, nobs = length (dm_y dm), rsquared = 0,
          aic = 0, bic = 0\<rparr>"

text \<open>A second backbone for concrete runs, whose coefficients depend on the data: the
  cross moments \<^verbatim>\<open>X.T @ y\<close> of the regressors and the outcome.\<close>

definition moment_fit :: backbone where
  "moment_fit dm =
     Inr \<lparr>exog_names = dm_names dm,
          params = map (\<lambda>j. \<Sum>(row, y) \<leftarrow> zip (dm_rows dm) (dm_y dm). row ! j * y)
                     [0..<length (dm_names dm)],
          pvalues = replicate (length (dm_names dm)) 1, nobs = length (dm_y dm), rsquared = 0,
          aic = 0, bic = 0\<rparr>"

section \<open>Interrupted time series and regression discontinuity (models/causal\_estimators.py)\<close>

record ts_row =
  ts_period :: string
  ts_y :: real
  ts_x :: "string \<Rightarrow> real"

record ITSResult =
  level_change :: real
  slope_change :: real
  p_level :: real
  p_slope :: real
  its_summary :: "(string \<times> real) list"

definition fit_summary :: "ols_fit \<Rightarrow> (string \<times> real) list" where
  "fit_summary m =
     [(''n'', real (nobs m)), (''r2'', rsquared m), (''aic'', aic m), (''bic'', bic m)]"

definition its_design_row :: "nat \<Rightarrow> string list \<Rightarrow> nat \<times> ts_row \<Rightarrow> real list" where
  "its_design_row t0 x_cols = (\<lambda>(t, r).
     (let post = (if t0 \<le> t then 1 else 0 :: int);
          t_post = (int t - int t0) * post
      in [1, real t, real_of_int post, real_of_int t_post] @ map (ts_x r) x_cols))"

definition its_result :: "string + ols_fit \<Rightarrow> error + ITSResult" where
  "its_result fit =
     (case fit of
        Inl msg \<Rightarrow> Inl (BackboneError msg)
      | Inr m \<Rightarrow>
          (case at_pos (params m) 2 of Inl e \<Rightarrow> Inl e | Inr lc \<Rightarrow>
           case at_pos (params m) 3 of Inl e \<Rightarrow> Inl e | Inr sc \<Rightarrow>
           case at_pos (pvalues m) 2 of Inl e \<Rightarrow> Inl e | Inr pl \<Rightarrow>
           case at_pos (pvalues m) 3 of Inl e \<Rightarrow> Inl e | Inr ps \<Rightarrow>
             Inr \<lparr>level_change = lc, slope_change = sc, p_level = pl, p_slope = ps,
                  its_summary = fit_summary m\<rparr>))"

text \<open>
  \<^verbatim>\<open>sort_values\<close> is modelled by a stable sort; the code's guard and the position
  \<open>t0\<close> of the first period not earlier than the intervention time are the same for
  every order of equal periods.
\<close>

definition its_t0 :: "ts_row list \<Rightarrow> string \<Rightarrow> nat" where
  "its_t0 df intervention_time =
     length (takeWhile Not (map (\<lambda>r. intervention_time \<le> ts_period r) (sort_key ts_period df)))"

definition its_design :: "ts_row list \<Rightarrow> string \<Rightarrow> string list \<Rightarrow> int option \<Rightarrow> design" where
  "its_design df intervention_time x_cols hac_lags =
     (let d = sort_key ts_period df in
      \<lparr>dm_cov = (case hac_lags of
                    None \<Rightarrow> NonRobust
                  | Some l \<Rightarrow> if l > 0 then HAC (nat l) else NonRobust),
       dm_names = [''const'', ''_t'', ''_post'', ''_t_post''] @ x_cols,
       dm_rows = map (its_design_row (its_t0 df intervention_time) x_cols) (zip [0..<length d] d),
       dm_fe = map (\<lambda>r. []) d,
       dm_y = map ts_y d\<rparr>)"

definition interrupted_time_series ::
  "backbone \<Rightarrow> ts_row list \<Rightarrow> string \<Rightarrow> string list \<Rightarrow> int option \<Rightarrow> error + ITSResult" where
  "interrupted_time_series ols df intervention_time x_cols hac_lags =
     (let d = sort_key ts_period df;
          tmask = map (\<lambda>r. intervention_time \<le> ts_period r) d
      in if \<not> list_ex id tmask
         then Inl (ValueError ''intervention_time is after all observations.'')
         else its_result (ols (its_design df intervention_time x_cols hac_lags)))"

record rd_row =
  rd_running :: real
  rd_y :: real
  rd_x :: "string \<Rightarrow> real"

record RDDResult =
  discontinuity :: real
  rdd_p_value :: real
  bandwidth :: real
  rdd_summary :: "(string \<times> real) list"

definition rdd_design_row :: "real \<Rightarrow> string list \<Rightarrow> rd_row \<Rightarrow> real list" where
  "rdd_design_row cutoff x_cols r =
     (let rc = rd_running r - cutoff;
          treat = (if rc \<ge> 0 then 1 else 0)
      in [1, rc, treat, rc * treat] @ map (rd_x r) x_cols)"

definition rdd_result :: "real \<Rightarrow> string + ols_fit \<Rightarrow> error + RDDResult" where
  "rdd_result bw fit =
     (case fit of
        Inl msg \<Rightarrow> Inl (BackboneError msg)
      | Inr m \<Rightarrow>
          (case at_label (exog_names m) (params m) ''_treat'' of Inl e \<Rightarrow> Inl e | Inr c \<Rightarrow>
           case at_label (exog_names m) (pvalues m) ''_treat'' of Inl e \<Rightarrow> Inl e | Inr p \<Rightarrow>
             Inr \<lparr>discontinuity = c, rdd_p_value = p, bandwidth = bw,
                  rdd_summary = fit_summary m\<rparr>))"

definition rdd_window :: "rd_row list \<Rightarrow> real \<Rightarrow> real \<Rightarrow> rd_row list" where
  "rdd_window df cutoff bw = filter (\<lambda>r. \<bar>rd_running r - cutoff\<bar> \<le> bw) df"

definition rdd_design :: "rd_row list \<Rightarrow> real \<Rightarrow> real \<Rightarrow> string list \<Rightarrow> design" where
  "rdd_design df cutoff bw x_cols =
     (let d = rdd_window df cutoff bw in
      \<lparr>dm_cov = NonRobust,
       dm_names = [''const'', ''_r'', ''_treat'', ''_r_treat''] @ x_cols,
       dm_rows = map (rdd_design_row cutoff x_cols) d,
       dm_fe = map (\<lambda>r. []) d,
       dm_y = map rd_y d\<rparr>)"

definition regression_discontinuity ::
  "backbone \<Rightarrow> rd_row list \<Rightarrow> real \<Rightarrow> real \<Rightarrow> string list \<Rightarrow> error + RDDResult" where
  "regression_discontinuity ols df cutoff bw x_cols =
     (if length (rdd_window df cutoff bw) < 20
      then Inl (ValueError ''Not enough observations in bandwidth to fit RDD.'')
      else rdd_result bw (ols (rdd_design df cutoff bw x_cols)))"

section \<open>Difference in differences and event study (models/causal\_plus.py)\<close>

text \<open>One row of the panel handed to the fixed-effects estimators.\<close>

record fe_row =
  fe_unit :: string
  fe_time :: string
  fe_y :: real
  fe_treated :: int
  fe_post :: int
  fe_event_time :: int
  fe_x :: "string \<Rightarrow> real"

record DiDResult =
  att :: real
  did_p_value :: real
  did_summary :: "(string \<times> real) list"

text \<open>\<^verbatim>\<open>exog_names.index(name)\<close> raises ValueError when the name is not in the list.\<close>

definition at_name :: "ols_fit \<Rightarrow> real list \<Rightarrow> string \<Rightarrow> error + real" where
  "at_name m xs x =
     (case index_of x (exog_names m) of
        None \<Rightarrow> Inl (ValueError (x @ '' is not in list''))
      | Some i \<Rightarrow> at_pos xs i)"

definition cov_of :: "(fe_row \<Rightarrow> string) option \<Rightarrow> fe_row list \<Rightarrow> cov_type" where
  "cov_of cluster_col d =
     (case cluster_col of None \<Rightarrow> NonRobust | Some g \<Rightarrow> Cluster (map g d))"

definition did_design ::
  "fe_row list \<Rightarrow> string list \<Rightarrow> (fe_row \<Rightarrow> string) option \<Rightarrow> design" where
  "did_design d x_cols cluster_col =
     \<lparr>dm_cov = cov_of cluster_col d,
      dm_names = [''treated'', ''post'', ''_int''] @ x_cols,
      dm_rows = map (\<lambda>r. [real_of_int (fe_treated r), real_of_int (fe_post r),
                           real_of_int (fe_treated r * fe_post r)] @ map (fe_x r) x_cols) d,
      dm_fe = map (\<lambda>r. [fe_unit r, fe_time r]) d,
      dm_y = map fe_y d\<rparr>"

definition difference_in_differences ::
  "backbone \<Rightarrow> fe_row list \<Rightarrow> string list \<Rightarrow> (fe_row \<Rightarrow> string) option \<Rightarrow> error + DiDResult" where
  "difference_in_differences ols d x_cols cluster_col =
     (case ols (did_design d x_cols cluster_col) of
        Inl msg \<Rightarrow> Inl (BackboneError msg)
      | Inr m \<Rightarrow>
          (case at_name m (params m) ''_int'' of Inl e \<Rightarrow> Inl e | Inr a \<Rightarrow>
           case at_name m (pvalues m) ''_int'' of Inl e \<Rightarrow> Inl e | Inr p \<Rightarrow>
             Inr \<lparr>att = a, did_p_value = p,
                  did_summary = [(''n'', real (nobs m)), (''r2'', rsquared m)]\<rparr>))"

record EventStudyResult =
  coef_by_k :: "(int \<times> real) list"
  p_by_k :: "(int \<times> real) list"
  es_summary :: "(string \<times> real) list"

text \<open>Decimal digits of a natural number, for the names built with f-strings.\<close>

fun str_nat :: "nat \<Rightarrow> string" where
  "str_nat n =
     (if n < 10 then [''0123456789'' ! n]
      else str_nat (n div 10) @ [''0123456789'' ! (n mod 10)])"

declare str_nat.simps [simp del]

definition str_int :: "int \<Rightarrow> string" where
  "str_int k = (if k < 0 then ''-'' @ str_nat (nat (- k)) else str_nat (nat k))"

definition kname :: "int \<Rightarrow> string" where
  "kname k =
     (if k < 0 then ''k_m'' @ str_nat (nat \<bar>k\<bar>)
      else if k > 0 then ''k_p'' @ str_nat (nat k)
      else ''k_0'')"

definition es_design ::
  "fe_row list \<Rightarrow> int list \<Rightarrow> string list \<Rightarrow> (fe_row \<Rightarrow> string) option \<Rightarrow> design" where
  "es_design d ks x_cols cluster_col =
     \<lparr>dm_cov = cov_of cluster_col d,
      dm_names = [''treated''] @ map kname ks @ x_cols,
      dm_rows = map (\<lambda>r. [real_of_int (fe_treated r)]
                        @ map (\<lambda>k. real_of_int ((if fe_event_time r = k then 1 else 0) * fe_treated r)) ks
                        @ map (fe_x r) x_cols) d,
      dm_fe = map (\<lambda>r. [fe_unit r, fe_time r]) d,
      dm_y = map fe_y d\<rparr>"

text \<open>The loop that reads the coefficient and p-value of every offset out of the fit.\<close>

fun es_read ::
  "ols_fit \<Rightarrow> int list \<Rightarrow> (int \<times> real) list \<times> (int \<times> real) list
     \<Rightarrow> error + (int \<times> real) list \<times> (int \<times> real) list" where
  "es_read m [] acc = Inr acc"
| "es_read m (k # ks) (cs, ps) =
     (case at_name m (params m) (kname k) of Inl e \<Rightarrow> Inl e | Inr c \<Rightarrow>
      case at_name m (pvalues m) (kname k) of Inl e \<Rightarrow> Inl e | Inr p \<Rightarrow>
        es_read m ks (AList.update k c cs, AList.update k p ps))"

text \<open>With no offset left, the formula reads \<^verbatim>\<open>treated +  + C(unit) + C(time)\<close>, which the
  formula parser takes with a unary plus: the fit goes ahead and both mappings are empty.\<close>

definition event_study ::
  "backbone \<Rightarrow> fe_row list \<Rightarrow> int \<Rightarrow> int \<Rightarrow> int \<Rightarrow> string list \<Rightarrow> (fe_row \<Rightarrow> string) option
     \<Rightarrow> error + EventStudyResult" where
  "event_study ols d k_min k_max omit_k x_cols cluster_col =
     (let ks = filter (\<lambda>k. k \<noteq> omit_k) [k_min..k_max] in
      case ols (es_design d ks x_cols cluster_col) of
        Inl msg \<Rightarrow> Inl (BackboneError msg)
      | Inr m \<Rightarrow>
          (case es_read m ks ([], []) of
             Inl e \<Rightarrow> Inl e
           | Inr (cs, ps) \<Rightarrow>
               Inr \<lparr>coef_by_k = cs, p_by_k = ps,
                    es_summary = [(''n'', real (nobs m)), (''r2'', rsquared m),
                                  (''k_min'', real_of_int k_min), (''k_max'', real_of_int k_max),
                                  (''omit_k'', real_of_int omit_k)]\<rparr>))"

section \<open>Pre-period joint test (models/did\_diagnostics.py)\<close>

record PrePeriodJointTestResult =
  k_values :: "int list"
  f_stat :: real
  jt_p_value :: real
  df_denom :: pyfloat
  df_num :: real

text \<open>\<^verbatim>\<open>max(1e-12, min(1.0, p))\<close>.\<close>

definition clamp_p :: "real \<Rightarrow> real" where
  "clamp_p p = max (1 / 10 ^ 12) (min 1 p)"

text \<open>The chi-squared distribution function of the external statistics library is a
  parameter: \<open>chi2_cdf x df\<close>.\<close>

definition event_study_preperiod_joint_test ::
  "(real \<Rightarrow> real \<Rightarrow> real) \<Rightarrow> (int \<times> real) list \<Rightarrow> (int \<times> real) list \<Rightarrow> int
     \<Rightarrow> error + PrePeriodJointTestResult" where
  "event_study_preperiod_joint_test chi2_cdf coefs pvals k_pre_max =
     (let ks = sort (filter (\<lambda>k. k \<le> k_pre_max) (map fst coefs)) in
      if ks = [] then Inl (ValueError ''No pre-period coefficients available for joint test.'')
      else
        (case collect (map (\<lambda>k. case map_of pvals k of
                                  None \<Rightarrow> Inl (KeyError (str_int k))
                                | Some p \<Rightarrow> Inr (clamp_p p)) ks) of
           Inl e \<Rightarrow> Inl e
         | Inr ps \<Rightarrow>
             (let stat = - 2 * sum_list (map ln ps);
                  dfn = 2 * real (length ps)
              in Inr \<lparr>k_values = ks, f_stat = stat, jt_p_value = 1 - chi2_cdf stat dfn,
                      df_denom = NaN, df_num = dfn\<rparr>)))"

section \<open>Model comparison (models/model\_comparison.py)\<close>

record ModelScore =
  ms_name :: string
  ms_bic :: real
  ms_n :: int
  ms_k :: int
  ms_weight :: real
  ms_att :: real
  ms_p_value :: real

text \<open>Python's \<^verbatim>\<open>min\<close> of a list: an error on the empty list.\<close>

definition py_min :: "real list \<Rightarrow> error + real" where
  "py_min xs =
     (case xs of
        [] \<Rightarrow> Inl (ValueError ''min() arg is an empty sequence'')
      | x # rest \<Rightarrow> Inr (fold (\<lambda>b acc. if b < acc then b else acc) rest x))"

definition bic_weights :: "real list \<Rightarrow> error + real list" where
  "bic_weights bics =
     (case py_min bics of
        Inl e \<Rightarrow> Inl e
      | Inr bmin \<Rightarrow>
          (let deltas = map (\<lambda>b. b - bmin) bics;
               w = map (\<lambda>d. exp (- (1 / 2) * d)) deltas;
               s = (if sum_list w = 0 then 1 else sum_list w)
           in Inr (map (\<lambda>wi. wi / s) w)))"

text \<open>\<^verbatim>\<open>dict.get(key, default)\<close> on a summary.\<close>

definition get_or :: "(string \<times> real) list \<Rightarrow> string \<Rightarrow> 'a \<Rightarrow> (real \<Rightarrow> 'a) \<Rightarrow> 'a" where
  "get_or summary key dflt conv = (case map_of summary key of None \<Rightarrow> dflt | Some v \<Rightarrow> conv v)"

text \<open>The BIC read from a fit's summary: NaN when the key is absent, and then the AIC, or
  0.0 when that is absent too.\<close>

definition summary_bic :: "(string \<times> real) list \<Rightarrow> real" where
  "summary_bic summary =
     (case get_or summary ''bic'' NaN Finite of
        Finite b \<Rightarrow> b
      | _ \<Rightarrow> get_or summary ''aic'' 0 id)"

text \<open>\<^verbatim>\<open>sorted(xs, key=f, reverse=True)\<close>: descending and stable.\<close>

definition sorted_desc :: "('a \<Rightarrow> real) \<Rightarrow> 'a list \<Rightarrow> 'a list" where
  "sorted_desc f xs = rev (sort_key f (rev xs))"

text \<open>The score of the candidate at position \<open>i\<close>, from its fit and its weight.\<close>

definition model_score :: "nat \<Rightarrow> DiDResult \<Rightarrow> real \<Rightarrow> ModelScore" where
  "model_score i res w =
     \<lparr>ms_name = ''did_spec_'' @ str_nat (i + 1),
      ms_bic = summary_bic (did_summary res),
      ms_n = get_or (did_summary res) ''n'' 0 floor,
      ms_k = get_or (did_summary res) ''k'' 0 floor,
      ms_weight = w,
      ms_att = att res,
      ms_p_value = did_p_value res\<rparr>"

definition compare_did_models ::
  "backbone \<Rightarrow> fe_row list \<Rightarrow> string list list \<Rightarrow> (fe_row \<Rightarrow> string) option
     \<Rightarrow> error + ModelScore list" where
  "compare_did_models ols df candidate_covariates cluster_col =
     (case collect (map (\<lambda>covs. difference_in_differences ols df covs cluster_col)
                      candidate_covariates) of
        Inl e \<Rightarrow> Inl e
      | Inr results \<Rightarrow>
          (let bics = map (\<lambda>res. summary_bic (did_summary res)) results in
           case bic_weights bics of
             Inl e \<Rightarrow> Inl e
           | Inr ws \<Rightarrow>
               Inr (sorted_desc ms_weight
                      (map (\<lambda>(i, res, w). model_score i res w)
                         (zip [0..<length results] (zip results ws))))))"

section \<open>Placebo sweep (assistant/robustness.py)\<close>

datatype placebo_record =
  PlaceboResult string pyfloat pyfloat
| PlaceboError string error

fun placebo_unit :: "placebo_record \<Rightarrow> string" where
  "placebo_unit (PlaceboResult u a b) = u"
| "placebo_unit (PlaceboError u e) = u"

text \<open>The argument \<open>treated_unit\<close> is accepted and not read, as in the source.\<close>

definition synthetic_control_placebos ::
  "panel_row list \<Rightarrow> string \<Rightarrow> string \<Rightarrow> placebo_record list" where
  "synthetic_control_placebos df intervention_time treated_unit_arg =
     map (\<lambda>u. case synthetic_control df u intervention_time None of
                 Inr r \<Rightarrow> PlaceboResult u (pre_rmse r) (post_gap_mean r)
               | Inl e \<Rightarrow> PlaceboError u e)
       (sort (unique (map unit_id df)))"

section \<open>Donor-pool search (models/synth\_opt.py)\<close>

datatype trial =
  Fallback nat
| Trial nat nat string pyfloat pyfloat

record DonorSearchResult =
  best :: SyntheticControlResult
  tried :: "trial list"

definition np_std :: "real list \<Rightarrow> real" where
  "np_std xs = sqrt (mean (map (\<lambda>x. (x - mean xs) ^ 2) xs))"

definition np_cov :: "real list \<Rightarrow> real list \<Rightarrow> real" where
  "np_cov a b =
     sum_list (map2 (*) (map (\<lambda>v. v - mean a) a) (map (\<lambda>v. v - mean b) b))
       / (real (length a) - 1)"

text \<open>\<^verbatim>\<open>np.corrcoef(a, b)[0, 1]\<close>: the covariance divided by both standard deviations, and
  clipped to [-1, 1].\<close>

definition corrcoef :: "real list \<Rightarrow> real list \<Rightarrow> real" where
  "corrcoef a b = max (- 1) (min 1 (np_cov a b / sqrt (np_cov a a) / sqrt (np_cov b b)))"

definition score :: "real list \<Rightarrow> real list \<Rightarrow> real" where
  "score yt xu =
     (if np_std xu < 1 / 10 ^ 9 \<or> np_std yt < 1 / 10 ^ 9 then 0 else corrcoef yt xu)"

text \<open>
  The inner loop of one greedy step: every candidate not yet selected is fitted together
  with the selected donors, logged, and kept when its pre-period RMSE is strictly below
  the best of this step.
\<close>

fun try_candidates ::
  "panel_row list \<Rightarrow> string \<Rightarrow> string \<Rightarrow> nat \<Rightarrow> string list \<Rightarrow> string list
     \<Rightarrow> trial list \<times> pyfloat \<times> (string \<times> SyntheticControlResult) option
     \<Rightarrow> error + trial list \<times> pyfloat \<times> (string \<times> SyntheticControlResult) option" where
  "try_candidates d treated it step sel [] st = Inr st"
| "try_candidates d treated it step sel (u # us) (trs, best_step_rmse, best_step) =
     (if u \<in> set sel
      then try_candidates d treated it step sel us (trs, best_step_rmse, best_step)
      else
        (case synthetic_control d treated it (Some (sel @ [u])) of
           Inl e \<Rightarrow> Inl e
         | Inr res \<Rightarrow>
             (let trs' = trs @ [Trial (step + 1) (length (sel @ [u])) u
                                      (pre_rmse res) (post_gap_mean res)]
              in if flt (pre_rmse res) best_step_rmse
                 then try_candidates d treated it step sel us
                        (trs', pre_rmse res, Some (u, res))
                 else try_candidates d treated it step sel us
                        (trs', best_step_rmse, best_step))))"

text \<open>The state of the outer loop: the selected donors, the best result and its RMSE, and
  the log.\<close>

record search_state =
  selected :: "string list"
  best_res :: "SyntheticControlResult option"
  best_rmse :: pyfloat
  trials :: "trial list"

fun greedy ::
  "panel_row list \<Rightarrow> string \<Rightarrow> string \<Rightarrow> string list \<Rightarrow> nat list \<Rightarrow> search_state
     \<Rightarrow> error + search_state" where
  "greedy d treated it candidates [] st = Inr st"
| "greedy d treated it candidates (step # steps) st =
     (case try_candidates d treated it step (selected st) candidates (trials st, PosInf, None) of
        Inl e \<Rightarrow> Inl e
      | Inr (trs', best_step_rmse, best_step) \<Rightarrow>
          (case best_step of
             None \<Rightarrow> Inr (st\<lparr>trials := trs'\<rparr>)
           | Some (u, res) \<Rightarrow>
               (let improved = flt best_step_rmse (best_rmse st);
                    st' = \<lparr>selected = selected st @ [u],
                           best_res = (if improved then Some res else best_res st),
                           best_rmse = (if improved then best_step_rmse else best_rmse st),
                           trials = trs'\<rparr>
                in if step \<ge> 2 \<and> within_tol best_step_rmse (best_rmse st')
                   then Inr st'
                   else greedy d treated it candidates steps st')))"

definition pre_periods :: "panel_row list \<Rightarrow> string \<Rightarrow> string list" where
  "pre_periods d intervention_time =
     filter (\<lambda>t. t < intervention_time) (sort (unique (map period d)))"

definition candidate_list ::
  "panel_row list \<Rightarrow> string \<Rightarrow> string \<Rightarrow> int \<Rightarrow> error + string list" where
  "candidate_list d treated intervention_time top_k_candidates =
     (let all_donors = sort (filter (\<lambda>u. u \<noteq> treated) (unique (map unit_id d)));
          pre_times = pre_periods d intervention_time
      in case series d treated pre_times of
           Inl e \<Rightarrow> Inl e
         | Inr yt \<Rightarrow>
             (case collect (map (\<lambda>u. case series d u pre_times of
                                        Inl e \<Rightarrow> Inl e
                                      | Inr xu \<Rightarrow> Inr (u, score yt xu)) all_donors) of
                Inl e \<Rightarrow> Inl e
              | Inr scored \<Rightarrow>
                  Inr (map fst
                         (take (nat (max 1 (min top_k_candidates (int (length scored)))))
                            (sorted_desc snd scored)))))"

definition donor_pool_search ::
  "panel_row list \<Rightarrow> string \<Rightarrow> string \<Rightarrow> int \<Rightarrow> int \<Rightarrow> error + DonorSearchResult" where
  "donor_pool_search d treated intervention_time max_donors top_k_candidates =
     (let pre_times = pre_periods d intervention_time in
      if length pre_times < 6 then
        (case synthetic_control d treated intervention_time None of
           Inl e \<Rightarrow> Inl e
         | Inr base \<Rightarrow> Inr \<lparr>best = base, tried = [Fallback (length pre_times)]\<rparr>)
      else
        (case candidate_list d treated intervention_time top_k_candidates of
           Inl e \<Rightarrow> Inl e
         | Inr candidates \<Rightarrow>
             (case greedy d treated intervention_time candidates
                     [0..<nat (min max_donors (int (length candidates)))]
                     \<lparr>selected = [], best_res = None, best_rmse = PosInf, trials = []\<rparr> of
                Inl e \<Rightarrow> Inl e
              | Inr st \<Rightarrow>
                  (case best_res st of
                     Some res \<Rightarrow> Inr \<lparr>best = res, tried = trials st\<rparr>
                   | None \<Rightarrow>
                       (case synthetic_control d treated intervention_time
                               (Some (take (max 1 (min 5 (length candidates))) candidates)) of
                          Inl e \<Rightarrow> Inl e
                        | Inr res \<Rightarrow> Inr \<lparr>best = res, tried = trials st\<rparr>)))))"

section \<open>Backbones that do not read the order of the rows\<close>

text \<open>
  Exact least squares is a function of the set of observations with their multiplicities,
  not of the order in which the rows arrive. A design is read as the multiset of its
  observations (design row, fixed-effect labels, outcome and cluster label); the cluster
  labels are set aside from the covariance option, which keeps its kind.
\<close>

fun cov_kind :: "cov_type \<Rightarrow> cov_type" where
  "cov_kind (Cluster gs) = Cluster []"
| "cov_kind c = c"

definition cluster_labels :: "design \<Rightarrow> string option list" where
  "cluster_labels dm =
     (case dm_cov dm of
        Cluster gs \<Rightarrow> map Some gs
      | _ \<Rightarrow> map (\<lambda>y. None) (dm_y dm))"

definition design_obs ::
  "design \<Rightarrow> (real list \<times> string list \<times> real \<times> string option) multiset" where
  "design_obs dm =
     mset (zip (dm_rows dm) (zip (dm_fe dm) (zip (dm_y dm) (cluster_labels dm))))"

text \<open>Every observation has its design row, its labels and its outcome.\<close>

definition rectangular :: "design \<Rightarrow> bool" where
  "rectangular dm =
     (length (dm_rows dm) = length (dm_y dm) \<and> length (dm_fe dm) = length (dm_y dm)
      \<and> length (cluster_labels dm) = length (dm_y dm))"

definition row_order_blind :: "backbone \<Rightarrow> bool" where
  "row_order_blind ols =
     (\<forall>dm dm'. rectangular dm \<and> rectangular dm' \<and> dm_names dm' = dm_names dm
         \<and> cov_kind (dm_cov dm') = cov_kind (dm_cov dm) \<and> design_obs dm' = design_obs dm
       \<longrightarrow> ols dm' = ols dm)"

definition panel_count :: "panel_row list" where
  "panel_count =
     [\<lparr>unit_id = ''A'', period = ''1'', outcome = 0\<rparr>,
      \<lparr>unit_id = ''A'', period = ''2'', outcome = 0\<rparr>,
      \<lparr>unit_id = ''A'', period = ''3'', outcome = 0\<rparr>,
      \<lparr>unit_id = ''A'', period = ''4'', outcome = 0\<rparr>,
      \<lparr>unit_id = ''B'', period = ''1'', outcome = 10\<rparr>,
      \<lparr>unit_id = ''B'', period = ''2'', outcome = 10\<rparr>,
      \<lparr>unit_id = ''B'', period = ''3'', outcome = 10\<rparr>,
      \<lparr>unit_id = ''B'', period = ''4'', outcome = 10\<rparr>]"

definition panel_opposed :: "panel_row list" where
  "panel_opposed =
     [\<lparr>unit_id = ''A'', period = ''1'', outcome = - 100\<rparr>,
      \<lparr>unit_id = ''B'', period = ''1'', outcome = 1\<rparr>]"

definition its_rows :: "ts_row list" where
  "its_rows =
     [\<lparr>ts_period = ''01'', ts_y = 3, ts_x = (\<lambda>c. 0)\<rparr>,
      \<lparr>ts_period = ''02'', ts_y = 4, ts_x = (\<lambda>c. 0)\<rparr>,
      \<lparr>ts_period = ''03'', ts_y = 3, ts_x = (\<lambda>c. 0)\<rparr>,
      \<lparr>ts_period = ''04'', ts_y = 5, ts_x = (\<lambda>c. 0)\<rparr>,
      \<lparr>ts_period = ''05'', ts_y = 4, ts_x = (\<lambda>c. 0)\<rparr>,
      \<lparr>ts_period = ''06'', ts_y = 6, ts_x = (\<lambda>c. 0)\<rparr>,
      \<lparr>ts_period = ''07'', ts_y = 5, ts_x = (\<lambda>c. 0)\<rparr>,
      \<lparr>ts_period = ''08'', ts_y = 9, ts_x = (\<lambda>c. 0)\<rparr>]"

definition its_zero :: ITSResult where
  "its_zero =
     \<lparr>level_change = 0, slope_change = 0, p_level = 1, p_slope = 1,
      its_summary = [(''n'', 8), (''r2'', 0), (''aic'', 0), (''bic'', 0)]\<rparr>"

definition rd_rows :: "nat \<Rightarrow> rd_row list" where
  "rd_rows n = replicate n \<lparr>rd_running = 1, rd_y = 2, rd_x = (\<lambda>c. 0)\<rparr>"

text \<open>
  For an even number of degrees of freedom \<open>2n\<close>, the chi-squared distribution function at
  \<open>x \<ge> 0\<close> has the closed form \<open>1 - exp (- x / 2) * (\<Sum>i<n. (x / 2) ^ i / i!)\<close>. It stands for
  the library's function in the concrete runs below.
\<close>

definition chi2_cdf_even :: "real \<Rightarrow> real \<Rightarrow> real" where
  "chi2_cdf_even x dfn = 1 - exp (- x / 2) * (\<Sum>i<nat \<lfloor>dfn / 2\<rfloor>. (x / 2) ^ i / fact i)"

definition es_rows :: "fe_row list" where
  "es_rows =
     [\<lparr>fe_unit = ''A'', fe_time = ''1'', fe_y = 1, fe_treated = 1, fe_post = 0,
       fe_event_time = - 1, fe_x = (\<lambda>c. 0)\<rparr>,
      \<lparr>fe_unit = ''A'', fe_time = ''2'', fe_y = 3, fe_treated = 1, fe_post = 1,
       fe_event_time = 0, fe_x = (\<lambda>c. 0)\<rparr>,
      \<lparr>fe_unit = ''B'', fe_time = ''1'', fe_y = 1, fe_treated = 0, fe_post = 0,
       fe_event_time = - 1, fe_x = (\<lambda>c. 0)\<rparr>,
      \<lparr>fe_unit = ''B'', fe_time = ''2'', fe_y = 2, fe_treated = 0, fe_post = 1,
       fe_event_time = 0, fe_x = (\<lambda>c. 0)\<rparr>]"

definition jt_coefs :: "(int \<times> real) list" where
  "jt_coefs = [(- 3, 2), (- 2, 1), (0, 4), (1, 5)]"

definition jt_pvals :: "(int \<times> real) list" where
  "jt_pvals = [(- 3, 1 / 2), (- 2, 1 / 4), (0, 1 / 10), (1, 1 / 100)]"

definition panel_post :: "panel_row list" where
  "panel_post =
     [\<lparr>unit_id = ''A'', period = ''1'', outcome = 5\<rparr>,
      \<lparr>unit_id = ''A'', period = ''2'', outcome = 7\<rparr>,
      \<lparr>unit_id = ''B'', period = ''1'', outcome = 1\<rparr>,
      \<lparr>unit_id = ''B'', period = ''2'', outcome = 3\<rparr>,
      \<lparr>unit_id = ''C'', period = ''1'', outcome = 3\<rparr>,
      \<lparr>unit_id = ''C'', period = ''2'', outcome = 5\<rparr>]"

definition panel_two :: "panel_row list" where
  "panel_two =
     [\<lparr>unit_id = ''A'', period = ''1'', outcome = 1\<rparr>,
      \<lparr>unit_id = ''A'', period = ''2'', outcome = 3\<rparr>,
      \<lparr>unit_id = ''B'', period = ''1'', outcome = 1\<rparr>,
      \<lparr>unit_id = ''B'', period = ''2'', outcome = 2\<rparr>]"

text \<open>
  A panel of six pre-intervention periods: the treated unit \<open>T\<close> is 1 in periods 1 to 4
  and 0 afterwards, and the donor \<open>D\<^sub>j\<close> is 1 in period \<open>j\<close> alone.
\<close>

definition panel_search :: "panel_row list" where
  "panel_search =
     [\<lparr>unit_id = ''T'', period = ''1'', outcome = 1\<rparr>,
      \<lparr>unit_id = ''T'', period = ''2'', outcome = 1\<rparr>,
      \<lparr>unit_id = ''T'', period = ''3'', outcome = 1\<rparr>,
      \<lparr>unit_id = ''T'', period = ''4'', outcome = 1\<rparr>,
      \<lparr>unit_id = ''T'', period = ''5'', outcome = 0\<rparr>,
      \<lparr>unit_id = ''T'', period = ''6'', outcome = 0\<rparr>,
      \<lparr>unit_id = ''D1'', period = ''1'', outcome = 1\<rparr>,
      \<lparr>unit_id = ''D1'', period = ''2'', outcome = 0\<rparr>,
      \<lparr>unit_id = ''D1'', period = ''3'', outcome = 0\<rparr>,
      \<lparr>unit_id = ''D1'', period = ''4'', outcome = 0\<rparr>,
      \<lparr>unit_id = ''D1'', period = ''5'', outcome = 0\<rparr>,
      \<lparr>unit_id = ''D1'', period = ''6'', outcome = 0\<rparr>,
      \<lparr>unit_id = ''D2'', period = ''1'', outcome = 0\<rparr>,
      \<lparr>unit_id = ''D2'', period = ''2'', outcome = 1\<rparr>,
      \<lparr>unit_id = ''D2'', period = ''3'', outcome = 0\<rparr>,
      \<lparr>unit_id = ''D2'', period = ''4'', outcome = 0\<rparr>,
      \<lparr>unit_id = ''D2'', period = ''5'', outcome = 0\<rparr>,
      \<lparr>unit_id = ''D2'', period = ''6'', outcome = 0\<rparr>,
      \<lparr>unit_id = ''D3'', period = ''1'', outcome = 0\<rparr>,
      \<lparr>unit_id = ''D3'', period = ''2'', outcome = 0\<rparr>,
      \<lparr>unit_id = ''D3'', period = ''3'', outcome = 1\<rparr>,
      \<lparr>unit_id = ''D3'', period = ''4'', outcome = 0\<rparr>,
      \<lparr>unit_id = ''D3'', period = ''5'', outcome = 0\<rparr>,
      \<lparr>unit_id = ''D3'', period = ''6'', outcome = 0\<rparr>,
      \<lparr>unit_id = ''D4'', period = ''1'', outcome = 0\<rparr>,
      \<lparr>unit_id = ''D4'', period = ''2'', outcome = 0\<rparr>,
      \<lparr>unit_id = ''D4'', period = ''3'', outcome = 0\<rparr>,
      \<lparr>unit_id = ''D4'', period = ''4'', outcome = 1\<rparr>,
      \<lparr>unit_id = ''D4'', period = ''5'', outcome = 0\<rparr>,
      \<lparr>unit_id = ''D4'', period = ''6'', outcome = 0\<rparr>]"

text \<open>The fit the search obtains on \<open>panel_search\<close> for a list of donors: uniform weights and a
  pre-period RMSE of \<open>sqrt q\<close>.\<close>

definition search_fit :: "string list \<Rightarrow> real \<Rightarrow> SyntheticControlResult" where
  "search_fit ds q =
     \<lparr>treated_unit = ''T'', donor_units = ds,
      weights = map (\<lambda>u. (u, 1 / real (length ds))) ds,
      pre_rmse = Finite (sqrt q), post_gap_mean = NaN, n_pre = 6, n_post = 0\<rparr>"

definition search_log :: "trial list" where
  "search_log =
     [Trial 1 1 ''D1'' (Finite (sqrt (1 / 2))) NaN,
      Trial 1 1 ''D2'' (Finite (sqrt (1 / 2))) NaN,
      Trial 1 1 ''D3'' (Finite (sqrt (1 / 2))) NaN,
      Trial 1 1 ''D4'' (Finite (sqrt (1 / 2))) NaN,
      Trial 2 2 ''D2'' (Finite (sqrt (5 / 12))) NaN,
      Trial 2 2 ''D3'' (Finite (sqrt (5 / 12))) NaN,
      Trial 2 2 ''D4'' (Finite (sqrt (5 / 12))) NaN,
      Trial 3 3 ''D3'' (Finite (sqrt (7 / 18))) NaN,
      Trial 3 3 ''D4'' (Finite (sqrt (7 / 18))) NaN]"

section \<open>Properties of the weight fit\<close>

lemma collect_length: "collect xs = Inr vs \<Longrightarrow> length vs = length xs"
  by (induction xs arbitrary: vs) (auto split: sum.splits)

lemma grad_length: "length (grad cols Y w) = length cols"
  by (simp add: grad_def matT_vec_def)

lemma pgd_step_length: "length w = length cols \<Longrightarrow> length (pgd_step cols Y w) = length cols"
  by (simp add: pgd_step_def Let_def grad_length)

lemma pgd_step_nonneg: "x \<in> set (pgd_step cols Y w) \<Longrightarrow> 0 \<le> x"
  by (auto simp: pgd_step_def Let_def split: if_splits)

lemma sum_list_div: "sum_list (map (\<lambda>x. x / s) xs) = sum_list xs / (s::real)"
  by (induction xs) (simp_all add: add_divide_distrib)

lemma nonneg_sum_zero: "(\<forall>x\<in>set xs. (0::real) \<le> x) \<Longrightarrow> sum_list xs \<le> 0 \<Longrightarrow> \<forall>x\<in>set xs. x = 0"
proof (induction xs)
  case Nil
  then show ?case by simp
next
  case (Cons a xs)
  have "0 \<le> sum_list xs" using Cons.prems(1) by (simp add: sum_list_nonneg)
  moreover have "0 \<le> a" using Cons.prems(1) by simp
  ultimately have "a = 0" "sum_list xs \<le> 0" using Cons.prems(2) by simp_all
  with Cons show ?case by simp
qed

lemma pgd_step_sum:
  "sum_list (pgd_step cols Y w) = 1 \<or> (\<forall>x\<in>set (pgd_step cols Y w). x = 0)"
proof -
  define w2 where "w2 = map (max 0) (map2 (\<lambda>wi gi. wi - (5 / 100) * gi) w (grad cols Y w))"
  have nn: "\<forall>x\<in>set w2. 0 \<le> x" by (auto simp: w2_def)
  show ?thesis
  proof (cases "sum_list w2 > 0")
    case True
    then have "pgd_step cols Y w = map (\<lambda>x. x / sum_list w2) w2"
      by (simp add: pgd_step_def Let_def w2_def)
    then show ?thesis using True by (simp add: sum_list_div)
  next
    case False
    then have "pgd_step cols Y w = w2"
      by (simp add: pgd_step_def Let_def w2_def)
    moreover have "\<forall>x\<in>set w2. x = 0" using nn False by (intro nonneg_sum_zero) simp_all
    ultimately show ?thesis by simp
  qed
qed

lemma funpow_length:
  "length w = length cols \<Longrightarrow> length (((pgd_step cols Y) ^^ n) w) = length cols"
  by (induction n) (simp_all add: pgd_step_length)

lemma fit_weights_last:
  "fit_weights cols Y =
     pgd_step cols Y (((pgd_step cols Y) ^^ 3999) (replicate (length cols) (1 / real (length cols))))"
proof -
  have "(4000::nat) = Suc 3999" by simp
  then show ?thesis unfolding fit_weights_def by (metis funpow.simps(2) o_apply)
qed

lemma fit_weights_length: "length (fit_weights cols Y) = length cols"
  unfolding fit_weights_def by (rule funpow_length) simp

lemma fit_weights_nonneg: "x \<in> set (fit_weights cols Y) \<Longrightarrow> 0 \<le> x"
  unfolding fit_weights_last by (rule pgd_step_nonneg)

lemma fit_weights_sum:
  "sum_list (fit_weights cols Y) = 1 \<or> (\<forall>x\<in>set (fit_weights cols Y). x = 0)"
  unfolding fit_weights_last by (rule pgd_step_sum)

lemma update_set_subset: "set (AList.update k v al) \<subseteq> insert (k, v) (set al)"
  by (induction al) auto

lemma update_append_new: "k \<notin> fst ` set al \<Longrightarrow> AList.update k v al = al @ [(k, v)]"
  by (induction al) auto

lemma dict_fold_keys:
  "fst ` set (fold (\<lambda>(k, v). AList.update k v) kvs acc) = fst ` set acc \<union> fst ` set kvs"
proof (induction kvs arbitrary: acc)
  case Nil
  then show ?case by simp
next
  case (Cons a kvs)
  obtain k v where a: "a = (k, v)" by (cases a)
  show ?case using Cons.IH [of "AList.update k v acc"] by (simp add: a dom_update Un_ac)
qed

lemma dict_fold_values:
  "set (fold (\<lambda>(k, v). AList.update k v) kvs acc) \<subseteq> set acc \<union> set kvs"
proof (induction kvs arbitrary: acc)
  case Nil
  then show ?case by simp
next
  case (Cons a kvs)
  obtain k v where a: "a = (k, v)" by (cases a)
  show ?case using Cons.IH [of "AList.update k v acc"] update_set_subset [of k v acc]
    by (auto simp: a)
qed

lemma dict_fold_distinct:
  "distinct (map fst (acc @ kvs)) \<Longrightarrow> fold (\<lambda>(k, v). AList.update k v) kvs acc = acc @ kvs"
proof (induction kvs arbitrary: acc)
  case Nil
  then show ?case by simp
next
  case (Cons a kvs)
  obtain k v where a: "a = (k, v)" by (cases a)
  have "k \<notin> fst ` set acc" using Cons.prems by (auto simp: a)
  then have u: "AList.update k v acc = acc @ [(k, v)]" by (rule update_append_new)
  have "distinct (map fst ((acc @ [(k, v)]) @ kvs))" using Cons.prems by (simp add: a)
  from Cons.IH [OF this] show ?case by (simp add: a u)
qed

lemma dict_of_keys: "fst ` set (dict_of kvs) = fst ` set kvs"
  by (simp add: dict_of_def dict_fold_keys)

lemma dict_of_values: "set (dict_of kvs) \<subseteq> set kvs"
  using dict_fold_values [of kvs "[]"] by (simp add: dict_of_def)

lemma dict_of_distinct: "distinct (map fst kvs) \<Longrightarrow> dict_of kvs = kvs"
  using dict_fold_distinct [of "[]" kvs] by (simp add: dict_of_def)

lemma default_donors_distinct:
  "distinct (sort (filter (\<lambda>u. u \<noteq> treated) (unique xs)))
   \<and> treated \<notin> set (sort (filter (\<lambda>u. u \<noteq> treated) (unique xs)))"
  by (simp add: unique_def)

lemma synthetic_control_Inr:
  assumes "synthetic_control d treated it dus = Inr r"
  obtains cols Y where
    "donor_units r = donor_list d treated dus"
    "weights r = dict_of (zip (donor_list d treated dus) (fit_weights cols Y))"
    "length cols = length (donor_list d treated dus)"
  using assms
  by (auto simp: synthetic_control_def Let_def vstack_def split: sum.splits if_splits
      dest!: collect_length)

lemma fit_weights_fixpoint:
  assumes "pgd_step cols Y (replicate (length cols) (1 / real (length cols))) = z"
    and "pgd_step cols Y z = z"
  shows "fit_weights cols Y = z"
proof -
  have fp: "((pgd_step cols Y) ^^ n) z = z" for n
    by (induction n) (simp_all add: assms(2))
  have "(4000::nat) = Suc 3999" by simp
  then have "fit_weights cols Y = ((pgd_step cols Y) ^^ 3999) (pgd_step cols Y (replicate (length cols) (1 / real (length cols))))"
    unfolding fit_weights_def by (metis funpow_swap1 funpow.simps(2) o_apply)
  then show ?thesis by (simp add: assms(1) fp)
qed

text \<open>
  What holds of every returned result: the donors are the caller's list when it is given
  and not empty, otherwise every other unit of the panel in sorted order; the keys of the
  weight mapping are exactly these donors; every weight is non-negative; and when the
  caller gives no donors the donors are pairwise distinct and the treated unit is not a
  key.
\<close>

lemma synthetic_control_result_weights:
  assumes "synthetic_control d treated it dus = Inr r"
  shows "donor_units r = donor_list d treated dus
       \<and> fst ` set (weights r) = set (donor_units r)
       \<and> (\<forall>x\<in>set (map snd (weights r)). 0 \<le> x)
       \<and> ((dus = None \<or> dus = Some []) \<longrightarrow>
            distinct (donor_units r) \<and> treated \<notin> fst ` set (weights r))"
proof -
  from assms obtain cols Y where
    du: "donor_units r = donor_list d treated dus" and
    w: "weights r = dict_of (zip (donor_list d treated dus) (fit_weights cols Y))" and
    len: "length cols = length (donor_list d treated dus)"
    by (rule synthetic_control_Inr)
  let ?ds = "donor_list d treated dus"
  let ?w = "fit_weights cols Y"
  have lw: "length ?w = length ?ds" by (simp add: fit_weights_length len)
  have keys: "fst ` set (weights r) = set ?ds"
  proof -
    have "fst ` set (zip ?ds ?w) = set (map fst (zip ?ds ?w))" by simp
    also have "\<dots> = set ?ds" using lw by (simp del: set_map)
    finally show ?thesis by (simp add: w dict_of_keys)
  qed
  have "set (weights r) \<subseteq> set (zip ?ds ?w)" by (simp add: w dict_of_values)
  then have "snd ` set (weights r) \<subseteq> set ?w"
    by (auto dest!: subsetD set_zip_rightD)
  then have nonneg: "\<forall>x\<in>set (map snd (weights r)). 0 \<le> x"
    using fit_weights_nonneg by auto
  have dflt: "(dus = None \<or> dus = Some []) \<longrightarrow> distinct ?ds \<and> treated \<notin> set ?ds"
    using default_donors_distinct [of treated "map unit_id d"]
    by (auto simp: donor_list_def)
  show ?thesis using du keys nonneg dflt by simp
qed

lemmas sc_eval =
  synthetic_control_def donor_list_def unique_def series_def reindex_def fillna_def
  vstack_def post_gap_def dict_of_def rmse_def mean_def Let_def

lemmas pgd_eval = pgd_step_def grad_def mat_vec_def matT_vec_def Let_def

lemma fit_one_equal: "fit_weights [[1]] [1] = [1]"
  by (rule fit_weights_fixpoint) (simp_all add: pgd_eval)

lemma fit_count: "fit_weights [[10, 10, 10]] [0, 0, 0] = [0]"
  by (rule fit_weights_fixpoint) (simp_all add: pgd_eval)

lemma fit_opposed: "fit_weights [[1]] [- 100] = [0]"
  by (rule fit_weights_fixpoint) (simp_all add: pgd_eval)

subsection \<open>C1: weights that do not sum to one\<close>

text \<open>
  Claim C1 has the returned weights sum to 1, and so has the docstring of
  \<open>synthetic_control\<close>. On \<open>panel_count\<close> the treated unit \<open>A\<close> counts 0 in every period and
  the only other unit \<open>B\<close> counts 10. The first gradient step takes the weight of \<open>B\<close> from 1
  to -9, the clip makes it 0, the sum is 0, the renormalisation under \<^verbatim>\<open>if s > 0\<close> is
  skipped, and the weight stays 0 in every later step: the returned mapping gives \<open>B\<close>
  the weight 0 and its values sum to 0. The same happens on \<open>panel_opposed\<close>.
\<close>

theorem synthetic_control_zero_weights:
  "map_sum id weights (synthetic_control panel_count ''A'' ''4'' None) = Inr [(''B'', 0)]
   \<and> map_sum id (sum_list \<circ> map snd \<circ> weights)
         (synthetic_control panel_count ''A'' ''4'' None) = Inr 0
   \<and> map_sum id weights (synthetic_control panel_opposed ''A'' ''2'' None) = Inr [(''B'', 0)]
   \<and> map_sum id (sum_list \<circ> map snd \<circ> weights)
         (synthetic_control panel_opposed ''A'' ''2'' None) = Inr 0"
  by (simp add: panel_count_def panel_opposed_def sc_eval mat_vec_def fit_count fit_opposed)

section \<open>Guards of the time-series and discontinuity estimators\<close>

lemma its_result_not_ValueError: "its_result fit \<noteq> Inl (ValueError msg)"
  by (auto simp: its_result_def at_pos_def split: sum.splits if_splits)

lemma rdd_result_not_ValueError: "rdd_result bw fit \<noteq> Inl (ValueError msg)"
  by (auto simp: rdd_result_def at_label_def at_pos_def split: sum.splits if_splits option.splits)

lemma its_result_fit:
  "4 \<le> length (params m) \<Longrightarrow> 4 \<le> length (pvalues m) \<Longrightarrow>
   its_result (Inr m) =
     Inr \<lparr>level_change = params m ! 2, slope_change = params m ! 3,
          p_level = pvalues m ! 2, p_slope = pvalues m ! 3, its_summary = fit_summary m\<rparr>"
  by (simp add: its_result_def at_pos_def)

lemma rdd_result_fit:
  "index_of ''_treat'' (exog_names m) = Some i \<Longrightarrow> i < length (params m) \<Longrightarrow>
   i < length (pvalues m) \<Longrightarrow>
   rdd_result bw (Inr m) =
     Inr \<lparr>discontinuity = params m ! i, rdd_p_value = pvalues m ! i, bandwidth = bw,
          rdd_summary = fit_summary m\<rparr>"
  by (simp add: rdd_result_def at_label_def at_pos_def)

lemma its_zero_fit:
  "its_result (zero_fit (its_design its_rows it [] (Some 3))) = Inr its_zero"
  by (simp add: its_design_def its_rows_def zero_fit_def its_result_def at_pos_def
      fit_summary_def its_zero_def Let_def)

subsection \<open>C4: when the interrupted time series refuses\<close>

text \<open>
  Claim C4, as the code has it. \<open>interrupted_time_series\<close> raises its error exactly when
  every observation's period is strictly before the intervention time (an empty series
  included). When some period is at or after the intervention time, the one equal to it
  included, the design goes to the regression backbone and the result is what the
  backbone's fit gives: the coefficients and p-values of the level change and the slope
  change when it returns a fit, its failure otherwise.
\<close>

theorem its_raises_iff:
  "((interrupted_time_series ols df it x_cols hac =
       Inl (ValueError ''intervention_time is after all observations.''))
      = (\<forall>r\<in>set df. ts_period r < it))
   \<and> ((\<exists>r\<in>set df. it \<le> ts_period r) \<longrightarrow>
        interrupted_time_series ols df it x_cols hac =
          its_result (ols (its_design df it x_cols hac)))
   \<and> (\<forall>m. (\<exists>r\<in>set df. it \<le> ts_period r) \<and> ols (its_design df it x_cols hac) = Inr m
          \<and> 4 \<le> length (params m) \<and> 4 \<le> length (pvalues m) \<longrightarrow>
        interrupted_time_series ols df it x_cols hac =
          Inr \<lparr>level_change = params m ! 2, slope_change = params m ! 3,
               p_level = pvalues m ! 2, p_slope = pvalues m ! 3,
               its_summary = fit_summary m\<rparr>)"
proof (intro conjI allI impI)
  show "(interrupted_time_series ols df it x_cols hac =
       Inl (ValueError ''intervention_time is after all observations.''))
      = (\<forall>r\<in>set df. ts_period r < it)"
    by (auto simp: interrupted_time_series_def Let_def list_ex_iff its_result_not_ValueError
        not_le)
next
  assume "\<exists>r\<in>set df. it \<le> ts_period r"
  then show "interrupted_time_series ols df it x_cols hac =
          its_result (ols (its_design df it x_cols hac))"
    by (auto simp: interrupted_time_series_def Let_def list_ex_iff)
next
  fix m :: ols_fit
  assume a: "(\<exists>r\<in>set df. it \<le> ts_period r) \<and> ols (its_design df it x_cols hac) = Inr m
          \<and> 4 \<le> length (params m) \<and> 4 \<le> length (pvalues m)"
  then have "interrupted_time_series ols df it x_cols hac = its_result (Inr m)"
    by (auto simp: interrupted_time_series_def Let_def list_ex_iff)
  with a show "interrupted_time_series ols df it x_cols hac =
          Inr \<lparr>level_change = params m ! 2, slope_change = params m ! 3,
               p_level = pvalues m ! 2, p_slope = pvalues m ! 3,
               its_summary = fit_summary m\<rparr>"
    by (simp add: its_result_fit)
qed

theorem its_raises_iff_witness:
  "interrupted_time_series zero_fit its_rows ''09'' [] (Some 3) =
     Inl (ValueError ''intervention_time is after all observations.'')
   \<and> interrupted_time_series zero_fit its_rows ''05'' [] (Some 3) = Inr its_zero"
proof -
  have a: "\<forall>r\<in>set its_rows. ts_period r < ''09''" by (simp add: its_rows_def)
  have b: "\<exists>r\<in>set its_rows. ''05'' \<le> ts_period r" by (simp add: its_rows_def)
  from its_raises_iff [of zero_fit its_rows "''09''" "[]" "Some 3"] a
  have "interrupted_time_series zero_fit its_rows ''09'' [] (Some 3) =
     Inl (ValueError ''intervention_time is after all observations.'')"
    by blast
  moreover from its_raises_iff [of zero_fit its_rows "''05''" "[]" "Some 3"] b
  have "interrupted_time_series zero_fit its_rows ''05'' [] (Some 3) =
     its_result (zero_fit (its_design its_rows ''05'' [] (Some 3)))"
    by blast
  ultimately show ?thesis by (simp add: its_zero_fit)
qed

text \<open>
  The intervention time \<open>08\<close> is at or after every observed period, the last one being
  \<open>08\<close> itself; the claim as stated has the estimator raise, and it fits instead, the last
  observation being the post-period.
\<close>

theorem its_raises_iff_counterexample:
  "map ts_period its_rows = [''01'', ''02'', ''03'', ''04'', ''05'', ''06'', ''07'', ''08'']
   \<and> interrupted_time_series zero_fit its_rows ''08'' [] (Some 3) \<noteq>
       Inl (ValueError ''intervention_time is after all observations.'')
   \<and> interrupted_time_series zero_fit its_rows ''08'' [] (Some 3) =
       its_result (zero_fit (its_design its_rows ''08'' [] (Some 3)))"
proof -
  have "\<exists>r\<in>set its_rows. ''08'' \<le> ts_period r" by (simp add: its_rows_def)
  then have "interrupted_time_series zero_fit its_rows ''08'' [] (Some 3) =
     its_result (zero_fit (its_design its_rows ''08'' [] (Some 3)))"
    by (auto simp: interrupted_time_series_def Let_def list_ex_iff)
  then show ?thesis by (simp add: its_result_not_ValueError) (simp add: its_rows_def)
qed

subsection \<open>C5: when the regression discontinuity refuses\<close>

text \<open>
  Claim C5. \<open>regression_discontinuity\<close> raises its error exactly when fewer than 20
  observations have a running variable within the bandwidth of the cutoff (absolute
  centred value at most the bandwidth). With 20 or more, the local design goes to the
  regression backbone and the result is what its fit gives: when the backbone returns a
  fit, the coefficient and p-value of the treatment indicator \<open>_treat\<close> are returned.
\<close>

theorem rdd_raises_iff:
  "((regression_discontinuity ols df cutoff bw x_cols =
       Inl (ValueError ''Not enough observations in bandwidth to fit RDD.''))
      = (length (filter (\<lambda>r. \<bar>rd_running r - cutoff\<bar> \<le> bw) df) < 20))
   \<and> (20 \<le> length (filter (\<lambda>r. \<bar>rd_running r - cutoff\<bar> \<le> bw) df) \<longrightarrow>
        regression_discontinuity ols df cutoff bw x_cols =
          rdd_result bw (ols (rdd_design df cutoff bw x_cols)))
   \<and> (\<forall>m i. 20 \<le> length (filter (\<lambda>r. \<bar>rd_running r - cutoff\<bar> \<le> bw) df)
          \<and> ols (rdd_design df cutoff bw x_cols) = Inr m
          \<and> index_of ''_treat'' (exog_names m) = Some i \<and> i < length (params m)
          \<and> i < length (pvalues m) \<longrightarrow>
        regression_discontinuity ols df cutoff bw x_cols =
          Inr \<lparr>discontinuity = params m ! i, rdd_p_value = pvalues m ! i, bandwidth = bw,
               rdd_summary = fit_summary m\<rparr>)"
  by (auto simp: regression_discontinuity_def rdd_window_def rdd_result_not_ValueError
      rdd_result_fit)

theorem rdd_raises_iff_witness:
  "regression_discontinuity zero_fit (rd_rows 19) 0 3 [] =
     Inl (ValueError ''Not enough observations in bandwidth to fit RDD.'')
   \<and> regression_discontinuity zero_fit (rd_rows 20) 0 3 [] =
     Inr \<lparr>discontinuity = 0, rdd_p_value = 1, bandwidth = 3,
          rdd_summary = [(''n'', 20), (''r2'', 0), (''aic'', 0), (''bic'', 0)]\<rparr>"
proof -
  have a: "length (filter (\<lambda>r. \<bar>rd_running r - 0\<bar> \<le> 3) (rd_rows 19)) < 20"
    by (simp add: rd_rows_def)
  have b: "20 \<le> length (filter (\<lambda>r. \<bar>rd_running r - 0\<bar> \<le> 3) (rd_rows 20))"
    by (simp add: rd_rows_def)
  from rdd_raises_iff [of zero_fit "rd_rows 19" 0 3 "[]"] a
  have "regression_discontinuity zero_fit (rd_rows 19) 0 3 [] =
     Inl (ValueError ''Not enough observations in bandwidth to fit RDD.'')"
    by blast
  moreover from rdd_raises_iff [of zero_fit "rd_rows 20" 0 3 "[]"] b
  have "regression_discontinuity zero_fit (rd_rows 20) 0 3 [] =
     rdd_result 3 (zero_fit (rdd_design (rd_rows 20) 0 3 []))"
    by blast
  ultimately show ?thesis
    by (simp add: rdd_design_def rdd_window_def rd_rows_def zero_fit_def rdd_result_def
        at_label_def at_pos_def fit_summary_def Let_def)
qed

section \<open>Event study, model comparison and the joint test\<close>

lemma es_read_keys:
  "es_read m ks (cs, ps) = Inr (cs', ps') \<Longrightarrow>
   fst ` set cs' = fst ` set cs \<union> set ks \<and> fst ` set ps' = fst ` set ps \<union> set ks"
proof (induction ks arbitrary: cs ps)
  case Nil
  then show ?case by simp
next
  case (Cons k ks)
  from Cons.prems obtain c p where
    "es_read m ks (AList.update k c cs, AList.update k p ps) = Inr (cs', ps')"
    by (auto split: sum.splits)
  from Cons.IH [OF this] show ?case by (auto simp: dom_update)
qed

subsection \<open>C6: the offsets of an event study\<close>

text \<open>
  Claim C6. Whenever \<open>event_study\<close> returns a result, the keys of the coefficient mapping
  and of the p-value mapping are exactly the integers of \<open>[k_min, k_max]\<close> other than
  \<open>omit_k\<close>; the omitted offset is a key of neither; and when \<open>omit_k\<close> lies outside the
  window every integer of the window is a key.
\<close>

theorem event_study_keys:
  assumes "event_study ols d k_min k_max omit_k x_cols cl = Inr r"
  shows "fst ` set (coef_by_k r) = {k_min..k_max} - {omit_k}
       \<and> fst ` set (p_by_k r) = {k_min..k_max} - {omit_k}
       \<and> omit_k \<notin> fst ` set (coef_by_k r)
       \<and> omit_k \<notin> fst ` set (p_by_k r)
       \<and> ((omit_k < k_min \<or> k_max < omit_k) \<longrightarrow>
            fst ` set (coef_by_k r) = {k_min..k_max} \<and> fst ` set (p_by_k r) = {k_min..k_max})"
proof -
  let ?ks = "filter (\<lambda>k. k \<noteq> omit_k) [k_min..k_max]"
  from assms obtain m cs ps where
    rd: "es_read m ?ks ([], []) = Inr (cs, ps)" and c: "coef_by_k r = cs" and p: "p_by_k r = ps"
    by (auto simp: event_study_def Let_def split: sum.splits)
  from es_read_keys [OF rd] have "fst ` set cs = set ?ks" "fst ` set ps = set ?ks" by simp_all
  moreover have "set ?ks = {k_min..k_max} - {omit_k}" by auto
  ultimately show ?thesis using c p by auto
qed

lemma upto_window: "[- 2..1] = [-2, -1, 0, 1::int]"
  by code_simp

theorem event_study_keys_witness:
  "map_sum id (map fst \<circ> coef_by_k) (event_study zero_fit es_rows (- 2) 1 (- 1) [] None) =
     Inr [- 2, 0, 1]
   \<and> map_sum id (map fst \<circ> p_by_k) (event_study zero_fit es_rows (- 2) 1 (- 1) [] None) =
     Inr [- 2, 0, 1]
   \<and> {- 2..1} - {- 1} = {- 2, 0, 1 :: int}"
proof -
  obtain r where h: "event_study zero_fit es_rows (- 2) 1 (- 1) [] None = Inr r"
    and c: "map fst (coef_by_k r) = [- 2, 0, 1]" and p: "map fst (p_by_k r) = [- 2, 0, 1]"
    by (simp add: event_study_def es_design_def zero_fit_def at_name_def at_pos_def
        kname_def str_nat.simps upto_window Let_def)
  from event_study_keys [OF h] have "set (map fst (coef_by_k r)) = {- 2..1} - {- 1}"
    by simp
  then have "{- 2..1} - {- 1} = {- 2, 0, 1 :: int}" by (simp add: c)
  then show ?thesis using h c p by simp
qed

lemma py_min_Min: "xs \<noteq> [] \<Longrightarrow> py_min xs = Inr (Min (set xs))"
proof (cases xs)
  case Nil
  then show "xs \<noteq> [] \<Longrightarrow> ?thesis" by simp
next
  case (Cons x rest)
  have "(\<lambda>b acc. if b < acc then b else acc) = (min :: real \<Rightarrow> real \<Rightarrow> real)"
    by (auto simp: min_def fun_eq_iff)
  then show ?thesis using Cons Min.set_eq_fold [of x rest] by (simp add: py_min_def)
qed

lemma sorted_desc_sorted: "sorted_wrt (\<lambda>a b. f a \<ge> f b) (sorted_desc f xs)"
proof -
  have "sorted (map f (sort_key f (rev xs)))" by simp
  then have "sorted_wrt (\<lambda>a b. f a \<le> f b) (sort_key f (rev xs))"
    by (simp add: sorted_wrt_map)
  then show ?thesis by (simp add: sorted_desc_def sorted_wrt_rev)
qed

lemma sorted_desc_length: "length (sorted_desc f xs) = length xs"
  by (simp add: sorted_desc_def)

lemma bic_weights_eq:
  assumes "bics \<noteq> []"
  shows "bic_weights bics =
    Inr (map (\<lambda>b. exp (- (1 / 2) * (b - Min (set bics)))
                / (\<Sum>c\<leftarrow>bics. exp (- (1 / 2) * (c - Min (set bics))))) bics)"
proof -
  let ?w = "map (\<lambda>d. exp (- (1 / 2) * d)) (map (\<lambda>b. b - Min (set bics)) bics)"
  obtain b rest where br: "bics = b # rest" using assms by (cases bics) auto
  have "\<forall>x\<in>set ?w. 0 < x" by auto
  moreover have "?w \<noteq> []" using assms by simp
  ultimately have "0 < sum_list ?w"
    by (metis (no_types, lifting) br list.simps(9) sum_list.Cons add_pos_nonneg
        list.set_intros(1) list.set_intros(2) sum_list_nonneg less_imp_le)
  then have "sum_list ?w \<noteq> 0" by simp
  then show ?thesis
    by (simp add: bic_weights_def py_min_Min [OF assms] Let_def comp_def)
qed

lemma sum_list_exp_pos:
  "bics \<noteq> [] \<Longrightarrow> 0 < (\<Sum>c\<leftarrow>bics. exp (- (1 / 2) * (c - (m::real))))"
proof (induction bics)
  case Nil
  then show ?case by simp
next
  case (Cons b bics)
  have "0 \<le> (\<Sum>c\<leftarrow>bics. exp (- (1 / 2) * (c - m)))" by (rule sum_list_nonneg) auto
  then show ?case by (simp add: add_pos_nonneg)
qed

text \<open>The summary of a difference-in-differences fit holds the sample size and the R-squared
  only, so the BIC read from it by the comparison is the last default, 0.\<close>

lemma did_summary_bic:
  "difference_in_differences ols d x_cols cl = Inr res \<Longrightarrow> summary_bic (did_summary res) = 0"
  by (auto simp: difference_in_differences_def summary_bic_def get_or_def split: sum.splits)

lemma sorted_desc_mset: "mset (sorted_desc f xs) = mset xs"
  by (simp add: sorted_desc_def)

lemma sorted_desc_stable:
  "filter (\<lambda>x. f x = k) (sorted_desc f xs) = filter (\<lambda>x. f x = k) xs"
  by (simp add: sorted_desc_def rev_filter [symmetric] sort_key_stable)

lemma sum_list_map_mset:
  "mset xs = mset ys \<Longrightarrow> sum_list (map f xs) = sum_list (map (f :: 'a \<Rightarrow> real) ys)"
  by (metis mset_map sum_mset_sum_list)

lemma collect_nth:
  "collect (map f xs) = Inr ys \<Longrightarrow> i < length xs \<Longrightarrow> f (xs ! i) = Inr (ys ! i)"
proof (induction xs arbitrary: ys i)
  case Nil
  then show ?case by simp
next
  case (Cons x xs)
  then show ?case by (cases i) (auto split: sum.splits)
qed

lemma map_zip_index:
  assumes "length rs = n" "length ws = n"
  shows "map (\<lambda>(i, r, w). g i r w) (zip [0..<n] (zip rs ws)) = map (\<lambda>i. g i (rs ! i) (ws ! i)) [0..<n]"
  using assms by (intro nth_equalityI) simp_all

lemma bic_weights_spec:
  assumes ne: "bics \<noteq> []"
  shows "\<exists>ws. bic_weights bics = Inr ws \<and> length ws = length bics
         \<and> (\<forall>i<length bics.
               ws ! i = exp (- (1 / 2) * (bics ! i - Min (set bics)))
                          / (\<Sum>c\<leftarrow>bics. exp (- (1 / 2) * (c - Min (set bics)))))
         \<and> sum_list ws = 1
         \<and> (\<forall>i<length bics. bics ! i = Min (set bics) \<longrightarrow> ws ! i = Max (set ws))"
proof -

  let ?m = "Min (set bics)"
  let ?s = "\<Sum>c\<leftarrow>bics. exp (- (1 / 2) * (c - ?m))"
  let ?ws = "map (\<lambda>b. exp (- (1 / 2) * (b - ?m)) / ?s) bics"
  have s: "0 < ?s" using ne by (rule sum_list_exp_pos)
  have eq: "bic_weights bics = Inr ?ws" using ne by (rule bic_weights_eq)
  have nth: "\<forall>i<length bics. ?ws ! i = exp (- (1 / 2) * (bics ! i - ?m)) / ?s" by simp
  have "sum_list ?ws = ?s / ?s"
    using sum_list_div [of ?s "map (\<lambda>b. exp (- (1 / 2) * (b - ?m))) bics"]
    by (simp add: comp_def)
  then have one: "sum_list ?ws = 1" using s by simp
  have mx: "?ws ! i = Max (set ?ws)" if i: "i < length bics" and bi: "bics ! i = ?m" for i
  proof -
    have wi: "?ws ! i = 1 / ?s" using i bi by simp
    have "?ws ! i \<in> set ?ws" using i by (metis length_map nth_mem)
    moreover have "x \<le> 1 / ?s" if "x \<in> set ?ws" for x
    proof -
      from that obtain b where b: "b \<in> set bics" and x: "x = exp (- (1 / 2) * (b - ?m)) / ?s"
        by auto
      have "?m \<le> b" using b by simp
      then have "exp (- (1 / 2) * (b - ?m)) \<le> 1" by simp
      then show ?thesis using s by (simp add: x divide_right_mono)
    qed
    ultimately show ?thesis using wi by (intro Max_eqI [symmetric]) auto
  qed
  show "\<exists>ws. bic_weights bics = Inr ws \<and> length ws = length bics
         \<and> (\<forall>i<length bics.
               ws ! i = exp (- (1 / 2) * (bics ! i - Min (set bics)))
                          / (\<Sum>c\<leftarrow>bics. exp (- (1 / 2) * (c - Min (set bics)))))
         \<and> sum_list ws = 1
         \<and> (\<forall>i<length bics. bics ! i = Min (set bics) \<longrightarrow> ws ! i = Max (set ws))"
    using eq nth one mx by (intro exI [of _ ?ws]) simp
qed

lemma bic_weights_Inr:
  assumes "bic_weights bics = Inr ws"
  shows "length ws = length bics \<and> sum_list ws = 1"
proof -
  have "bics \<noteq> []" using assms by (auto simp: bic_weights_def py_min_def)
  from bic_weights_spec [OF this] assms show ?thesis by auto
qed

lemma compare_did_models_scores:
  assumes h: "compare_did_models ols df cands cl = Inr scores"
  shows "\<exists>results ws. length results = length cands \<and> length ws = length cands
          \<and> (\<forall>i<length cands.
                difference_in_differences ols df (cands ! i) cl = Inr (results ! i))
          \<and> bic_weights (map (\<lambda>res. summary_bic (did_summary res)) results) = Inr ws
          \<and> scores = sorted_desc ms_weight
                       (map (\<lambda>i. model_score i (results ! i) (ws ! i)) [0..<length cands])
          \<and> mset scores = mset (map (\<lambda>i. model_score i (results ! i) (ws ! i)) [0..<length cands])
          \<and> sorted_wrt (\<lambda>a b. ms_weight a \<ge> ms_weight b) scores
          \<and> sum_list (map ms_weight scores) = 1"
proof -
  from h obtain results ws where
    r: "collect (map (\<lambda>covs. difference_in_differences ols df covs cl) cands) = Inr results"
    and w: "bic_weights (map (\<lambda>res. summary_bic (did_summary res)) results) = Inr ws"
    and sc: "scores = sorted_desc ms_weight
               (map (\<lambda>(i, res, w). model_score i res w)
                  (zip [0..<length results] (zip results ws)))"
    by (auto simp: compare_did_models_def Let_def split: sum.splits)
  let ?n = "length cands"
  let ?U = "map (\<lambda>i. model_score i (results ! i) (ws ! i)) [0..<?n]"
  have lr: "length results = ?n" using collect_length [OF r] by simp
  have lw: "length ws = ?n" and s1: "sum_list ws = 1"
    using bic_weights_Inr [OF w] lr by simp_all
  have fits: "\<forall>i<?n. difference_in_differences ols df (cands ! i) cl = Inr (results ! i)"
    using collect_nth [OF r] by simp
  have sc': "scores = sorted_desc ms_weight ?U"
    using map_zip_index [OF lr lw, of model_score] by (simp add: sc lr)
  have ms: "mset scores = mset ?U" by (simp add: sc' sorted_desc_mset)
  have srt: "sorted_wrt (\<lambda>a b. ms_weight a \<ge> ms_weight b) scores"
    by (simp add: sc' sorted_desc_sorted)
  have "map ms_weight ?U = map (\<lambda>i. ws ! i) [0..<?n]" by (simp add: model_score_def)
  also have "\<dots> = ws" using map_nth [of ws] by (simp add: lw)
  finally have mw: "map ms_weight ?U = ws" .
  have "sum_list (map ms_weight scores) = sum_list (map ms_weight ?U)"
    using ms by (rule sum_list_map_mset)
  then have sm: "sum_list (map ms_weight scores) = 1" using mw s1 by simp
  show ?thesis using lr lw fits w sc' ms srt sm by blast
qed

subsection \<open>C7: BIC weights and the ranking of models\<close>

text \<open>
  Claim C7. For every non-empty list of BICs, \<open>bic_weights\<close> returns one weight per model,
  the weight \<open>exp (- (BIC\<^sub>i - min BIC) / 2)\<close> divided by the sum of these numbers over all
  models; the weights sum to 1; and every model whose BIC is the minimum has the maximum
  weight. Whenever \<open>compare_did_models\<close> returns, every candidate has been fitted by
  \<open>difference_in_differences\<close>, the weights are those \<open>bic_weights\<close> gives for the BICs read
  from the summaries of these fits, and the scores returned are the scores of the
  candidates (name, BIC, weight, effect and p-value of the candidate's own fit), each
  once, in descending order of weight, their weights summing to 1. The ranking itself,
  \<open>sorted_desc\<close>, puts any list in descending order of its key, keeps every element, and
  keeps elements of equal key in their order.
\<close>

theorem bic_weights_normalised:
  "(bics \<noteq> [] \<longrightarrow>
      (\<exists>ws. bic_weights bics = Inr ws \<and> length ws = length bics
         \<and> (\<forall>i<length bics.
               ws ! i = exp (- (1 / 2) * (bics ! i - Min (set bics)))
                          / (\<Sum>c\<leftarrow>bics. exp (- (1 / 2) * (c - Min (set bics)))))
         \<and> sum_list ws = 1
         \<and> (\<forall>i<length bics. bics ! i = Min (set bics) \<longrightarrow> ws ! i = Max (set ws))))
   \<and> (compare_did_models ols df cands cl = Inr scores \<longrightarrow>
        (\<exists>results ws. length results = length cands \<and> length ws = length cands
          \<and> (\<forall>i<length cands.
                difference_in_differences ols df (cands ! i) cl = Inr (results ! i))
          \<and> bic_weights (map (\<lambda>res. summary_bic (did_summary res)) results) = Inr ws
          \<and> scores = sorted_desc ms_weight
                       (map (\<lambda>i. model_score i (results ! i) (ws ! i)) [0..<length cands])
          \<and> mset scores = mset (map (\<lambda>i. model_score i (results ! i) (ws ! i)) [0..<length cands])
          \<and> sorted_wrt (\<lambda>a b. ms_weight a \<ge> ms_weight b) scores
          \<and> sum_list (map ms_weight scores) = 1))
   \<and> sorted_wrt (\<lambda>a b. f a \<ge> f b) (sorted_desc f xs)
   \<and> mset (sorted_desc f xs) = mset xs
   \<and> (\<forall>k. filter (\<lambda>x. f x = k) (sorted_desc f xs) = filter (\<lambda>x. f x = k) xs)"
  using bic_weights_spec [of bics] compare_did_models_scores [of ols df cands cl scores]
    sorted_desc_sorted [of f xs] sorted_desc_mset [of f xs] sorted_desc_stable [of f _ xs]
  by blast

lemmas did_eval =
  compare_did_models_def difference_in_differences_def did_design_def moment_fit_def
  at_name_def at_pos_def es_rows_def cov_of_def summary_bic_def get_or_def bic_weights_def
  py_min_def sorted_desc_def model_score_def str_nat.simps upt_rec Let_def

theorem bic_weights_normalised_witness:
  "map_sum id sum_list (bic_weights [10, 12, 10]) = Inr 1
   \<and> map_sum id (map ms_name) (compare_did_models moment_fit es_rows [[], [''gdp'']] None) =
       Inr [''did_spec_1'', ''did_spec_2'']
   \<and> map_sum id (map ms_att) (compare_did_models moment_fit es_rows [[], [''gdp'']] None) =
       Inr [3, 3]
   \<and> map_sum id (map ms_weight) (compare_did_models moment_fit es_rows [[], [''gdp'']] None) =
       Inr [1 / 2, 1 / 2]
   \<and> sorted_desc snd [(''a'', 1), (''b'', 2), (''c'', 2)] = [(''b'', 2), (''c'', 2), (''a'', 1)]"
proof -
  obtain scores where
    h: "compare_did_models moment_fit es_rows [[], [''gdp'']] None = Inr scores"
    and n: "map ms_name scores = [''did_spec_1'', ''did_spec_2'']"
    and a: "map ms_att scores = [3, 3]"
    and w: "map ms_weight scores = [1 / 2, 1 / 2]"
    by (simp add: did_eval)
  have ne: "[10, 12, 10 :: real] \<noteq> []" by simp
  note t = bic_weights_normalised
    [of "[10, 12, 10]" moment_fit es_rows "[[], [''gdp'']]" None scores snd
        "[(''a'', 1), (''b'', 2), (''c'', 2)]"]
  from t ne obtain ws where "bic_weights [10, 12, 10] = Inr ws" "sum_list ws = 1" by blast
  then have b: "map_sum id sum_list (bic_weights [10, 12, 10]) = Inr 1" by simp
  from t h have "sum_list (map ms_weight scores) = 1" by blast
  moreover have s: "sorted_desc snd [(''a'', 1 :: real), (''b'', 2), (''c'', 2)]
      = [(''b'', 2), (''c'', 2), (''a'', 1)]"
    by (simp add: sorted_desc_def)
  ultimately show ?thesis using b h n a w by simp
qed

lemma collect_map_Inr:
  "collect (map f xs) = Inr ys \<Longrightarrow> \<forall>x\<in>set xs. \<exists>y. f x = Inr y"
  by (induction xs arbitrary: ys) (auto split: sum.splits)

lemma collect_map_eq:
  "collect (map f xs) = Inr ys \<Longrightarrow> ys = map (\<lambda>x. projr (f x)) xs"
  by (induction xs arbitrary: ys) (auto split: sum.splits)

lemma sum_list_scale: "(\<Sum>x\<leftarrow>xs. c * f x) = (c::real) * (\<Sum>x\<leftarrow>xs. f x)"
  by (induction xs) (simp_all add: algebra_simps)

lemma clamp_p_id: "1 / 10 ^ 12 \<le> p \<Longrightarrow> p \<le> 1 \<Longrightarrow> clamp_p p = p"
  by (simp add: clamp_p_def)

subsection \<open>C8: Fisher's combination of the pre-period p-values\<close>

text \<open>
  Claim C8, as the code has it. Whenever \<open>event_study_preperiod_joint_test\<close> returns, the
  offsets it combines are exactly the keys of the coefficient mapping at or below
  \<open>k_pre_max\<close>, in ascending order, and there is at least one; each has a p-value; the
  statistic is the sum over them of \<open>- 2 ln p\<close> with \<open>p\<close> first brought into
  \<open>[10\<^sup>-\<^sup>1\<^sup>2, 1]\<close>, hence the sum of \<open>- 2 ln p\<close> itself when every combined p-value lies in
  that interval; the degrees of freedom are twice the number of combined p-values; and the
  returned p-value is one minus the chi-squared distribution function at the statistic.
  The function is a function of its arguments alone, so recomputing gives the same
  result.
\<close>

theorem joint_test_fisher:
  assumes "event_study_preperiod_joint_test chi2_cdf coefs pvals k_pre_max = Inr r"
  shows "k_values r = sort (filter (\<lambda>k. k \<le> k_pre_max) (map fst coefs))
       \<and> k_values r \<noteq> []
       \<and> (\<forall>k\<in>set (k_values r). k \<in> fst ` set pvals)
       \<and> f_stat r = (\<Sum>k\<leftarrow>k_values r. - 2 * ln (clamp_p (the (map_of pvals k))))
       \<and> df_num r = 2 * real (length (k_values r))
       \<and> jt_p_value r = 1 - chi2_cdf (f_stat r) (df_num r)
       \<and> ((\<forall>k\<in>set (k_values r). 1 / 10 ^ 12 \<le> the (map_of pvals k) \<and> the (map_of pvals k) \<le> 1)
            \<longrightarrow> f_stat r = (\<Sum>k\<leftarrow>k_values r. - 2 * ln (the (map_of pvals k))))"
proof -
  let ?ks = "sort (filter (\<lambda>k. k \<le> k_pre_max) (map fst coefs))"
  let ?f = "\<lambda>k. case map_of pvals k of None \<Rightarrow> Inl (KeyError (str_int k))
                                     | Some p \<Rightarrow> Inr (clamp_p p)"
  from assms obtain ps where ne: "?ks \<noteq> []" and c: "collect (map ?f ?ks) = Inr ps"
    and r: "r = \<lparr>k_values = ?ks, f_stat = - 2 * sum_list (map ln ps),
                 jt_p_value = 1 - chi2_cdf (- 2 * sum_list (map ln ps)) (2 * real (length ps)),
                 df_denom = NaN, df_num = 2 * real (length ps)\<rparr>"
    by (auto simp: event_study_preperiod_joint_test_def Let_def split: if_splits sum.splits)
  have dom: "\<forall>k\<in>set ?ks. \<exists>p. map_of pvals k = Some p"
    using collect_map_Inr [OF c] by (auto split: option.splits)
  then have keys: "\<forall>k\<in>set ?ks. k \<in> fst ` set pvals"
    by (metis map_of_eq_None_iff option.distinct(1))
  have "ps = map (\<lambda>k. projr (?f k)) ?ks" using c by (rule collect_map_eq)
  also have "\<dots> = map (\<lambda>k. clamp_p (the (map_of pvals k))) ?ks"
    using dom by (intro map_cong) auto
  finally have ps: "ps = map (\<lambda>k. clamp_p (the (map_of pvals k))) ?ks" .
  have stat: "- 2 * sum_list (map ln ps) = (\<Sum>k\<leftarrow>?ks. - 2 * ln (clamp_p (the (map_of pvals k))))"
    using sum_list_scale [of "- 2" "\<lambda>k. ln (clamp_p (the (map_of pvals k)))" ?ks]
    by (simp add: ps comp_def)
  have len: "length ps = length ?ks" by (simp add: ps)
  have plain: "(\<Sum>k\<leftarrow>?ks. - 2 * ln (clamp_p (the (map_of pvals k))))
             = (\<Sum>k\<leftarrow>?ks. - 2 * ln (the (map_of pvals k)))"
    if "\<forall>k\<in>set ?ks. 1 / 10 ^ 12 \<le> the (map_of pvals k) \<and> the (map_of pvals k) \<le> 1"
    using that by (intro arg_cong [where f = sum_list] map_cong) (auto simp: clamp_p_id)
  show ?thesis using ne keys stat len plain by (simp add: r)
qed

lemmas jt_eval = event_study_preperiod_joint_test_def clamp_p_def Let_def

theorem joint_test_fisher_witness:
  "map_sum id k_values (event_study_preperiod_joint_test chi2_cdf_even jt_coefs jt_pvals (- 2))
     = Inr [- 3, - 2]
   \<and> map_sum id f_stat (event_study_preperiod_joint_test chi2_cdf_even jt_coefs jt_pvals (- 2))
     = Inr (- 2 * ln (1 / 2) + - 2 * ln (1 / 4))
   \<and> map_sum id df_num (event_study_preperiod_joint_test chi2_cdf_even jt_coefs jt_pvals (- 2))
     = Inr 4"
proof -
  obtain r where
    h: "event_study_preperiod_joint_test chi2_cdf_even jt_coefs jt_pvals (- 2) = Inr r"
    by (simp add: jt_eval jt_coefs_def jt_pvals_def)
  have k: "sort (filter (\<lambda>k. k \<le> - 2) (map fst jt_coefs)) = [- 3, - 2]"
    by (simp add: jt_coefs_def)
  from joint_test_fisher [OF h] have
    "k_values r = [- 3, - 2]"
    "f_stat r = (\<Sum>k\<leftarrow>k_values r. - 2 * ln (clamp_p (the (map_of jt_pvals k))))"
    "df_num r = 2 * real (length (k_values r))"
    by (simp_all add: k)
  then have "k_values r = [- 3, - 2]" "f_stat r = - 2 * ln (1 / 2) + - 2 * ln (1 / 4)"
    "df_num r = 4"
    by (simp_all add: clamp_p_def jt_pvals_def)
  then show ?thesis using h by simp
qed

text \<open>A p-value of \<open>10\<^sup>-\<^sup>1\<^sup>3\<close>: the statistic is computed from the floor \<open>10\<^sup>-\<^sup>1\<^sup>2\<close>.\<close>

theorem joint_test_fisher_counterexample:
  "map_sum id f_stat
     (event_study_preperiod_joint_test chi2_cdf_even [(- 2, 1)] [(- 2, 1 / 10 ^ 13)] (- 2))
     = Inr (- 2 * ln (1 / 10 ^ 12))
   \<and> - 2 * ln (1 / 10 ^ 12) \<noteq> - 2 * ln (1 / 10 ^ 13 :: real)"
  by (simp add: jt_eval)

section \<open>Synthetic control without a pre-period\<close>

lemma keyed_unit_periods:
  assumes "panel_keyed d"
  shows "distinct (map fst (map (\<lambda>r. (period r, outcome r)) (filter (\<lambda>r. unit_id r = u) d)))"
proof -
  let ?ys = "filter (\<lambda>r. unit_id r = u) d"
  have "distinct (map (\<lambda>r. (unit_id r, period r)) ?ys)"
    using assms unfolding panel_keyed_def by (rule distinct_map_filter)
  moreover have "map (\<lambda>r. (unit_id r, period r)) ?ys = map (Pair u) (map period ?ys)"
    by (induction d) auto
  ultimately have "distinct (map period ?ys)"
    by (auto simp: distinct_map inj_on_def)
  then show ?thesis by (simp add: comp_def)
qed

lemma ffill_length: "length (ffill p xs) = length xs"
  by (induction p xs rule: ffill.induct) simp_all

lemma series_keyed:
  "panel_keyed d \<Longrightarrow> \<exists>v. series d u ts = Inr v \<and> length v = length ts"
  using keyed_unit_periods [of d u] by (simp add: series_def reindex_def fillna_def ffill_length)

lemma series_keyed_nil: "panel_keyed d \<Longrightarrow> series d u [] = Inr []"
  using keyed_unit_periods [of d u] by (simp add: series_def reindex_def fillna_def)

lemma collect_all_Inr:
  "(\<forall>x\<in>set xs. \<exists>v. f x = Inr v) \<Longrightarrow> \<exists>vs. collect (map f xs) = Inr vs \<and> length vs = length xs"
  by (induction xs) (auto split: sum.splits)

lemma collect_const: "collect (map (\<lambda>x. Inr c) xs) = Inr (replicate (length xs) c)"
  by (induction xs) simp_all

lemma transpose_empty_cols: "transpose (replicate n []) = []"
  by (induction n) simp_all

lemma pgd_step_no_periods:
  assumes "0 < n"
  shows "pgd_step (replicate n []) [] (replicate n (1 / real n)) = replicate n (1 / real n)"
proof -
  have g: "grad (replicate n []) [] (replicate n (1 / real n)) = replicate n 0"
    by (simp add: grad_def mat_vec_def matT_vec_def transpose_empty_cols)
  have s: "sum_list (replicate n (1 / real n)) = 1"
    using assms by (simp add: sum_list_replicate)
  show ?thesis
    using assms by (simp add: pgd_step_def g zip_replicate s Let_def map_replicate)
qed

lemma fit_weights_no_periods:
  "0 < n \<Longrightarrow> fit_weights (replicate n []) [] = replicate n (1 / real n)"
  by (rule fit_weights_fixpoint) (simp_all add: pgd_step_no_periods)

lemma no_pre_periods:
  "\<forall>r\<in>set d. it \<le> period r \<Longrightarrow> filter (\<lambda>t. t < it) (sort (unique (map period d))) = []"
  by (auto simp: filter_empty_conv unique_def)

lemma all_post_periods:
  "\<forall>r\<in>set d. it \<le> period r \<Longrightarrow>
   filter (\<lambda>t. it \<le> t) (sort (unique (map period d))) = sort (unique (map period d))"
  by (auto simp: filter_id_conv unique_def)

lemma post_gap_keyed:
  assumes "panel_keyed d" "ts \<noteq> []" "ds \<noteq> []"
  shows "\<exists>g. post_gap d treated ds ts w = Inr (Finite g)"
proof -
  obtain y where y: "series d treated ts = Inr y" using series_keyed [OF assms(1)] by blast
  have "\<forall>u\<in>set ds. \<exists>v. series d u ts = Inr v" using series_keyed [OF assms(1)] by blast
  then obtain vs where vs: "collect (map (\<lambda>u. series d u ts) ds) = Inr vs"
    and l: "length vs = length ds"
    using collect_all_Inr [of ds "\<lambda>u. series d u ts"] by blast
  have "vs \<noteq> []" using l assms(3) by auto
  then show ?thesis using assms(2) y vs by (simp add: post_gap_def vstack_def)
qed

lemma synthetic_control_no_pre:
  assumes k: "panel_keyed d" and post: "\<forall>r\<in>set d. it \<le> period r" and ne: "d \<noteq> []"
    and ds: "donor_list d treated dus \<noteq> []"
  shows "\<exists>r g. synthetic_control d treated it dus = Inr r
       \<and> donor_units r = donor_list d treated dus
       \<and> weights r = dict_of (zip (donor_list d treated dus)
                        (replicate (length (donor_list d treated dus))
                           (1 / real (length (donor_list d treated dus)))))
       \<and> pre_rmse r = NaN
       \<and> post_gap_mean r = Finite g
       \<and> post_gap d treated (donor_list d treated dus) (sort (unique (map period d)))
            (replicate (length (donor_list d treated dus))
               (1 / real (length (donor_list d treated dus)))) = Inr (Finite g)"
proof -
  let ?ds = "donor_list d treated dus"
  let ?n = "length ?ds"
  let ?w = "replicate ?n (1 / real ?n)"
  let ?ts = "sort (unique (map period d))"
  have n: "0 < ?n" using ds by simp
  have pre: "filter (\<lambda>t. t < it) ?ts = []" using post by (rule no_pre_periods)
  have pst: "filter (\<lambda>t. it \<le> t) ?ts = ?ts" using post by (rule all_post_periods)
  have "set ?ts = period ` set d" by (simp add: unique_def)
  then have "set ?ts \<noteq> {}" using ne by simp
  then have tne: "?ts \<noteq> []" by (metis set_empty)
  have vs: "vstack (replicate ?n []) = Inr (replicate ?n [])"
    using n by (simp add: vstack_def)
  have fw: "fit_weights (replicate ?n []) [] = ?w" using n by (rule fit_weights_no_periods)
  obtain g where g: "post_gap d treated ?ds ?ts ?w = Inr (Finite g)"
    using post_gap_keyed [OF k tne ds] by blast
  have "synthetic_control d treated it dus =
      Inr \<lparr>treated_unit = treated, donor_units = ?ds, weights = dict_of (zip ?ds ?w),
           pre_rmse = NaN, post_gap_mean = Finite g, n_pre = 0, n_post = length ?ts\<rparr>"
    unfolding synthetic_control_def Let_def pre pst
    by (simp add: series_keyed_nil [OF k] collect_const vs fw g rmse_def)
  then show ?thesis using g by auto
qed

lemma dict_of_uniform: "(u, w) \<in> set (dict_of (zip ds (replicate n c))) \<Longrightarrow> w = c"
  using dict_of_values [of "zip ds (replicate n c)"] by (auto dest!: subsetD set_zip_rightD)

subsection \<open>C10: a panel with no pre-period\<close>

text \<open>
  Claim C10, as the code has it. On a keyed, non-empty panel whose every period is at or
  after the intervention time, with at least one donor, \<open>synthetic_control\<close> returns a
  result: each of the \<open>n\<close> donors has the weight \<open>1/n\<close>, the pre-period RMSE is NaN, and the
  post-period gap is the mean gap under these uniform weights. The interrupted time series
  does not raise in that situation either: on a non-empty series whose every period is at or
  after the intervention time it hands its design to the regression backbone, and its own
  error is not raised.
\<close>

theorem synthetic_control_no_pre_period:
  "(panel_keyed d \<and> (\<forall>r\<in>set d. it \<le> period r) \<and> d \<noteq> [] \<and> donor_list d treated dus \<noteq> [] \<longrightarrow>
      (\<exists>r g. synthetic_control d treated it dus = Inr r
         \<and> weights r = dict_of (zip (donor_list d treated dus)
                          (replicate (length (donor_list d treated dus))
                             (1 / real (length (donor_list d treated dus)))))
         \<and> fst ` set (weights r) = set (donor_list d treated dus)
         \<and> (\<forall>w\<in>snd ` set (weights r). w = 1 / real (length (donor_list d treated dus)))
         \<and> pre_rmse r = NaN
         \<and> post_gap_mean r = Finite g
         \<and> post_gap d treated (donor_list d treated dus) (sort (unique (map period d)))
              (replicate (length (donor_list d treated dus))
                 (1 / real (length (donor_list d treated dus)))) = Inr (Finite g)))
   \<and> (df \<noteq> [] \<and> (\<forall>r\<in>set df. it' \<le> ts_period r) \<longrightarrow>
        interrupted_time_series ols df it' x_cols hac =
          its_result (ols (its_design df it' x_cols hac))
        \<and> interrupted_time_series ols df it' x_cols hac \<noteq>
          Inl (ValueError ''intervention_time is after all observations.''))"
proof (intro conjI impI)
  assume a: "panel_keyed d \<and> (\<forall>r\<in>set d. it \<le> period r) \<and> d \<noteq> [] \<and> donor_list d treated dus \<noteq> []"
  let ?ds = "donor_list d treated dus"
  let ?w = "replicate (length ?ds) (1 / real (length ?ds))"
  from a synthetic_control_no_pre [of d it treated dus] obtain r g where
    r: "synthetic_control d treated it dus = Inr r" and
    w: "weights r = dict_of (zip ?ds ?w)" and
    p: "pre_rmse r = NaN" "post_gap_mean r = Finite g"
       "post_gap d treated ?ds (sort (unique (map period d))) ?w = Inr (Finite g)"
    by blast
  have "map fst (zip ?ds ?w) = ?ds" by simp
  then have "fst ` set (zip ?ds ?w) = set ?ds" by (metis set_map)
  then have keys: "fst ` set (weights r) = set ?ds" unfolding w dict_of_keys .
  have vals: "\<forall>x\<in>snd ` set (weights r). x = 1 / real (length ?ds)"
    using dict_of_uniform [of _ _ ?ds "length ?ds" "1 / real (length ?ds)"] by (auto simp: w)
  show "\<exists>r g. synthetic_control d treated it dus = Inr r
         \<and> weights r = dict_of (zip ?ds ?w)
         \<and> fst ` set (weights r) = set ?ds
         \<and> (\<forall>w\<in>snd ` set (weights r). w = 1 / real (length ?ds))
         \<and> pre_rmse r = NaN
         \<and> post_gap_mean r = Finite g
         \<and> post_gap d treated ?ds (sort (unique (map period d))) ?w = Inr (Finite g)"
    using r w keys vals p by blast
next
  assume b: "df \<noteq> [] \<and> (\<forall>r\<in>set df. it' \<le> ts_period r)"
  then have ex: "\<exists>r\<in>set df. it' \<le> ts_period r" by (cases df) auto
  then show "interrupted_time_series ols df it' x_cols hac =
          its_result (ols (its_design df it' x_cols hac))"
    by (auto simp: interrupted_time_series_def Let_def list_ex_iff)
  then show "interrupted_time_series ols df it' x_cols hac \<noteq>
          Inl (ValueError ''intervention_time is after all observations.'')"
    by (simp add: its_result_not_ValueError)
qed

theorem synthetic_control_no_pre_period_witness:
  "map_sum id weights (synthetic_control panel_post ''A'' ''1'' None) =
     Inr [(''B'', 1 / 2), (''C'', 1 / 2)]
   \<and> map_sum id pre_rmse (synthetic_control panel_post ''A'' ''1'' None) = Inr NaN
   \<and> map_sum id post_gap_mean (synthetic_control panel_post ''A'' ''1'' None) = Inr (Finite 3)
   \<and> interrupted_time_series zero_fit its_rows ''01'' [] (Some 3) = Inr its_zero"
proof -
  have k: "panel_keyed panel_post" by (simp add: panel_keyed_def panel_post_def)
  have p: "\<forall>r\<in>set panel_post. ''1'' \<le> period r" by (simp add: panel_post_def)
  have n: "panel_post \<noteq> []" by (simp add: panel_post_def)
  have ds: "donor_list panel_post ''A'' None = [''B'', ''C'']"
    by (simp add: donor_list_def panel_post_def unique_def)
  have ts: "sort (unique (map period panel_post)) = [''1'', ''2'']"
    by (simp add: panel_post_def unique_def)
  have g: "post_gap panel_post ''A'' [''B'', ''C''] [''1'', ''2''] [1 / 2, 1 / 2] = Inr (Finite 3)"
    by (simp add: post_gap_def series_def reindex_def fillna_def vstack_def mat_vec_def
        mean_def panel_post_def)
  have i: "its_rows \<noteq> [] \<and> (\<forall>r\<in>set its_rows. ''01'' \<le> ts_period r)"
    by (simp add: its_rows_def)
  note t = synthetic_control_no_pre_period
    [of panel_post "''1''" "''A''" None its_rows "''01''" zero_fit "[]" "Some 3"]
  have h: "panel_keyed panel_post \<and> (\<forall>r\<in>set panel_post. ''1'' \<le> period r)
      \<and> panel_post \<noteq> [] \<and> donor_list panel_post ''A'' None \<noteq> []"
    using k p n by (simp add: ds)
  from t [THEN conjunct1, THEN mp, OF h, unfolded ds ts] obtain r g' where
    r: "synthetic_control panel_post ''A'' ''1'' None = Inr r" and
    w: "weights r = dict_of (zip [''B'', ''C''] (replicate (length [''B'', ''C''])
          (1 / real (length [''B'', ''C'']))))" and
    q: "pre_rmse r = NaN" "post_gap_mean r = Finite g'" and
    g': "post_gap panel_post ''A'' [''B'', ''C''] [''1'', ''2'']
          (replicate (length [''B'', ''C'']) (1 / real (length [''B'', ''C'']))) = Inr (Finite g')"
    by blast
  have u: "replicate (length [''B'', ''C'']) (1 / real (length [''B'', ''C''])) = [1 / 2, 1 / 2]"
    by (simp add: numeral_2_eq_2)
  from g g' have "g' = 3" unfolding u by simp
  moreover have "weights r = [(''B'', 1 / 2), (''C'', 1 / 2)]"
    unfolding w u by (simp add: dict_of_def)
  moreover from t [THEN conjunct2] i have "interrupted_time_series zero_fit its_rows ''01'' [] (Some 3) =
      its_result (zero_fit (its_design its_rows ''01'' [] (Some 3)))"
    by blast
  ultimately show ?thesis using r q by (simp add: its_zero_fit)
qed

text \<open>
  The claim as stated has the interrupted time series raise when there is no pre-period.
  With the intervention at the first observed period it fits.
\<close>

theorem synthetic_control_no_pre_period_counterexample:
  "map ts_period its_rows = [''01'', ''02'', ''03'', ''04'', ''05'', ''06'', ''07'', ''08'']
   \<and> interrupted_time_series zero_fit its_rows ''01'' [] (Some 3) \<noteq>
       Inl (ValueError ''intervention_time is after all observations.'')
   \<and> interrupted_time_series zero_fit its_rows ''01'' [] (Some 3) =
       its_result (zero_fit (its_design its_rows ''01'' [] (Some 3)))"
proof -
  have "\<exists>r\<in>set its_rows. ''01'' \<le> ts_period r" by (simp add: its_rows_def)
  then have "interrupted_time_series zero_fit its_rows ''01'' [] (Some 3) =
     its_result (zero_fit (its_design its_rows ''01'' [] (Some 3)))"
    by (auto simp: interrupted_time_series_def Let_def list_ex_iff)
  then show ?thesis by (simp add: its_result_not_ValueError) (simp add: its_rows_def)
qed

section \<open>The placebo sweep\<close>

text \<open>One record per unit of the panel, in sorted order, whatever the treated unit.\<close>

lemma placebos_units:
  "map placebo_unit (synthetic_control_placebos d it tu) = sort (unique (map unit_id d))"
  by (auto simp: synthetic_control_placebos_def intro!: map_idI split: sum.splits)

subsection \<open>C3: the placebo sweep and the treated unit\<close>

text \<open>
  Claim C3 asks for one trial per unit other than the supplied treated unit. On a panel of
  the two units \<open>A\<close> and \<open>B\<close> with \<open>A\<close> the treated unit, the sweep returns two records,
  the first of them for \<open>A\<close> itself.
\<close>

theorem placebos_include_treated_unit:
  "synthetic_control_placebos panel_two ''2'' ''A'' =
     [PlaceboResult ''A'' (Finite 0) (Finite 1), PlaceboResult ''B'' (Finite 0) (Finite (- 1))]"
  by (simp add: synthetic_control_placebos_def panel_two_def sc_eval mat_vec_def fit_one_equal)

section \<open>The donor-pool search on a concrete panel\<close>

lemma search_times: "sort (unique (map period panel_search)) = [''1'', ''2'', ''3'', ''4'', ''5'', ''6'']"
  by (simp add: panel_search_def unique_def)

lemma search_units: "unique (map unit_id panel_search) = [''T'', ''D1'', ''D2'', ''D3'', ''D4'']"
  by (simp add: panel_search_def unique_def)

lemma search_series:
  "series panel_search ''T'' [''1'', ''2'', ''3'', ''4'', ''5'', ''6''] = Inr [1, 1, 1, 1, 0, 0]"
  "series panel_search ''D1'' [''1'', ''2'', ''3'', ''4'', ''5'', ''6''] = Inr [1, 0, 0, 0, 0, 0]"
  "series panel_search ''D2'' [''1'', ''2'', ''3'', ''4'', ''5'', ''6''] = Inr [0, 1, 0, 0, 0, 0]"
  "series panel_search ''D3'' [''1'', ''2'', ''3'', ''4'', ''5'', ''6''] = Inr [0, 0, 1, 0, 0, 0]"
  "series panel_search ''D4'' [''1'', ''2'', ''3'', ''4'', ''5'', ''6''] = Inr [0, 0, 0, 1, 0, 0]"
  by (simp_all add: panel_search_def series_def reindex_def fillna_def)

lemma search_weights_one:
  "fit_weights [[1, 0, 0, 0, 0, 0]] [1, 1, 1, 1, 0, 0] = [1]"
  "fit_weights [[0, 1, 0, 0, 0, 0]] [1, 1, 1, 1, 0, 0] = [1]"
  "fit_weights [[0, 0, 1, 0, 0, 0]] [1, 1, 1, 1, 0, 0] = [1]"
  "fit_weights [[0, 0, 0, 1, 0, 0]] [1, 1, 1, 1, 0, 0] = [1]"
  by (rule fit_weights_fixpoint; simp add: pgd_eval)+

lemma search_weights_two:
  "fit_weights [[1, 0, 0, 0, 0, 0], [0, 1, 0, 0, 0, 0]] [1, 1, 1, 1, 0, 0] = [1 / 2, 1 / 2]"
  "fit_weights [[1, 0, 0, 0, 0, 0], [0, 0, 1, 0, 0, 0]] [1, 1, 1, 1, 0, 0] = [1 / 2, 1 / 2]"
  "fit_weights [[1, 0, 0, 0, 0, 0], [0, 0, 0, 1, 0, 0]] [1, 1, 1, 1, 0, 0] = [1 / 2, 1 / 2]"
  by (rule fit_weights_fixpoint; simp add: pgd_eval)+

lemma search_weights_three:
  "fit_weights [[1, 0, 0, 0, 0, 0], [0, 1, 0, 0, 0, 0], [0, 0, 1, 0, 0, 0]] [1, 1, 1, 1, 0, 0]
     = [1 / 3, 1 / 3, 1 / 3]"
  "fit_weights [[1, 0, 0, 0, 0, 0], [0, 1, 0, 0, 0, 0], [0, 0, 0, 1, 0, 0]] [1, 1, 1, 1, 0, 0]
     = [1 / 3, 1 / 3, 1 / 3]"
  by (rule fit_weights_fixpoint; simp add: pgd_eval)+

lemma search_weights_four:
  "fit_weights [[1, 0, 0, 0, 0, 0], [0, 1, 0, 0, 0, 0], [0, 0, 1, 0, 0, 0], [0, 0, 0, 1, 0, 0]]
     [1, 1, 1, 1, 0, 0] = [1 / 4, 1 / 4, 1 / 4, 1 / 4]"
  by (rule fit_weights_fixpoint; simp add: pgd_eval)

lemmas trial_eval =
  synthetic_control_def donor_list_def search_times search_series vstack_def post_gap_def
  dict_of_def rmse_def mean_def mat_vec_def search_fit_def power2_eq_square Let_def

lemma search_trials:
  "synthetic_control panel_search ''T'' ''7'' (Some [''D1'']) = Inr (search_fit [''D1''] (1 / 2))"
  "synthetic_control panel_search ''T'' ''7'' (Some [''D2'']) = Inr (search_fit [''D2''] (1 / 2))"
  "synthetic_control panel_search ''T'' ''7'' (Some [''D3'']) = Inr (search_fit [''D3''] (1 / 2))"
  "synthetic_control panel_search ''T'' ''7'' (Some [''D4'']) = Inr (search_fit [''D4''] (1 / 2))"
  "synthetic_control panel_search ''T'' ''7'' (Some [''D1'', ''D2''])
     = Inr (search_fit [''D1'', ''D2''] (5 / 12))"
  "synthetic_control panel_search ''T'' ''7'' (Some [''D1'', ''D3''])
     = Inr (search_fit [''D1'', ''D3''] (5 / 12))"
  "synthetic_control panel_search ''T'' ''7'' (Some [''D1'', ''D4''])
     = Inr (search_fit [''D1'', ''D4''] (5 / 12))"
  "synthetic_control panel_search ''T'' ''7'' (Some [''D1'', ''D2'', ''D3''])
     = Inr (search_fit [''D1'', ''D2'', ''D3''] (7 / 18))"
  "synthetic_control panel_search ''T'' ''7'' (Some [''D1'', ''D2'', ''D4''])
     = Inr (search_fit [''D1'', ''D2'', ''D4''] (7 / 18))"
  "synthetic_control panel_search ''T'' ''7'' (Some [''D1'', ''D2'', ''D3'', ''D4''])
     = Inr (search_fit [''D1'', ''D2'', ''D3'', ''D4''] (3 / 8))"
  by (simp_all add: trial_eval search_weights_one search_weights_two search_weights_three search_weights_four)

lemma search_std:
  "np_std [1, 1, 1, 1, 0, 0] = sqrt (2 / 9)"
  "np_std [1, 0, 0, 0, 0, 0] = sqrt (5 / 36)"
  "np_std [0, 1, 0, 0, 0, 0] = sqrt (5 / 36)"
  "np_std [0, 0, 1, 0, 0, 0] = sqrt (5 / 36)"
  "np_std [0, 0, 0, 1, 0, 0] = sqrt (5 / 36)"
  by (simp_all add: np_std_def mean_def power2_eq_square)

lemma search_std_large:
  "\<not> sqrt (2 / 9) < 1 / 10 ^ 9" "\<not> sqrt (5 / 36) < 1 / 10 ^ 9"
proof -
  have "1 / 10 ^ 9 \<le> sqrt (2 / 9)" "1 / 10 ^ 9 \<le> sqrt (5 / 36)"
    by (rule real_le_rsqrt; simp add: power2_eq_square)+
  then show "\<not> sqrt (2 / 9) < 1 / 10 ^ 9" "\<not> sqrt (5 / 36) < 1 / 10 ^ 9" by simp_all
qed

lemma search_scores:
  "score [1, 1, 1, 1, 0, 0] [0, 1, 0, 0, 0, 0] = score [1, 1, 1, 1, 0, 0] [1, 0, 0, 0, 0, 0]"
  "score [1, 1, 1, 1, 0, 0] [0, 0, 1, 0, 0, 0] = score [1, 1, 1, 1, 0, 0] [1, 0, 0, 0, 0, 0]"
  "score [1, 1, 1, 1, 0, 0] [0, 0, 0, 1, 0, 0] = score [1, 1, 1, 1, 0, 0] [1, 0, 0, 0, 0, 0]"
  unfolding score_def search_std
  by (simp_all add: search_std_large corrcoef_def np_cov_def mean_def)

lemma search_pre: "pre_periods panel_search ''7'' = [''1'', ''2'', ''3'', ''4'', ''5'', ''6'']"
  by (simp add: pre_periods_def search_times)

lemma search_candidates:
  "candidate_list panel_search ''T'' ''7'' 30 = Inr [''D1'', ''D2'', ''D3'', ''D4'']"
  by (simp add: candidate_list_def search_pre search_units search_series search_scores
      sorted_desc_def)

lemma search_step1:
  "try_candidates panel_search ''T'' ''7'' 0 [] [''D1'', ''D2'', ''D3'', ''D4''] ([], PosInf, None)
     = Inr (take 4 search_log, Finite (sqrt (1 / 2)), Some (''D1'', search_fit [''D1''] (1 / 2)))"
  by (simp add: search_trials search_log_def search_fit_def)

lemma search_step2:
  "try_candidates panel_search ''T'' ''7'' 1 [''D1''] [''D1'', ''D2'', ''D3'', ''D4'']
       (take 4 search_log, PosInf, None)
     = Inr (take 7 search_log, Finite (sqrt (5 / 12)),
            Some (''D2'', search_fit [''D1'', ''D2''] (5 / 12)))"
  by (simp add: search_trials search_log_def search_fit_def)

lemma search_step3:
  "try_candidates panel_search ''T'' ''7'' 2 [''D1'', ''D2''] [''D1'', ''D2'', ''D3'', ''D4'']
       (take 7 search_log, PosInf, None)
     = Inr (search_log, Finite (sqrt (7 / 18)),
            Some (''D3'', search_fit [''D1'', ''D2'', ''D3''] (7 / 18)))"
  by (simp add: search_trials search_log_def search_fit_def)

lemma search_steps: "[0..<4] = [0, 1, 2, 3 :: nat]"
  by (simp add: upt_rec)

lemma search_greedy:
  "greedy panel_search ''T'' ''7'' [''D1'', ''D2'', ''D3'', ''D4''] [0, 1, 2, 3]
       \<lparr>selected = [], best_res = None, best_rmse = PosInf, trials = []\<rparr>
     = Inr \<lparr>selected = [''D1'', ''D2'', ''D3''],
            best_res = Some (search_fit [''D1'', ''D2'', ''D3''] (7 / 18)),
            best_rmse = Finite (sqrt (7 / 18)), trials = search_log\<rparr>"
proof -
  show ?thesis
    using search_step1 search_step2 search_step3
    by (simp add: Let_def)
qed

text \<open>
  From the third step on, a step that improves on the best RMSE ends the search: the best
  RMSE is updated first and then compared with the step's own, which is now the same
  number.
\<close>

lemma greedy_stops_on_improvement:
  assumes "try_candidates d treated it step (selected st) candidates (trials st, PosInf, None)
             = Inr (trs', Finite a, Some (u, res))"
    and "flt (Finite a) (best_rmse st)" and "2 \<le> step"
  shows "greedy d treated it candidates (step # steps) st
           = Inr \<lparr>selected = selected st @ [u], best_res = Some res,
                  best_rmse = Finite a, trials = trs'\<rparr>"
  using assms by (simp add: Let_def)

subsection \<open>C2: the greedy search stops at its third improving step\<close>

text \<open>
  Claim C2 has the search go on while each step improves the best pre-period RMSE by more
  than the tolerance. On \<open>panel_search\<close>, with six pre-periods, four candidates and the
  default limit of 15 donors, the three steps taken lower the RMSE from \<open>sqrt (1/2)\<close> to
  \<open>sqrt (5/12)\<close> to \<open>sqrt (7/18)\<close>, and the fourth donor would lower it to \<open>sqrt (3/8)\<close>,
  each time by more than \<open>10\<^sup>-\<^sup>6\<close>. The search returns the fit on three donors after nine
  trials, not the four donors the claim states.
\<close>

theorem donor_search_stops_after_three:
  "donor_pool_search panel_search ''T'' ''7'' 15 30
     = Inr \<lparr>best = search_fit [''D1'', ''D2'', ''D3''] (7 / 18), tried = search_log\<rparr>
   \<and> candidate_list panel_search ''T'' ''7'' 30 = Inr [''D1'', ''D2'', ''D3'', ''D4'']
   \<and> synthetic_control panel_search ''T'' ''7'' (Some [''D1'', ''D2'', ''D3'', ''D4''])
     = Inr (search_fit [''D1'', ''D2'', ''D3'', ''D4''] (3 / 8))
   \<and> sqrt (1 / 2) - sqrt (5 / 12) > 1 / 10 ^ 6
   \<and> sqrt (5 / 12) - sqrt (7 / 18) > 1 / 10 ^ 6
   \<and> sqrt (7 / 18) - sqrt (3 / 8) > 1 / 10 ^ 6"
proof -
  have a: "donor_pool_search panel_search ''T'' ''7'' 15 30
     = Inr \<lparr>best = search_fit [''D1'', ''D2'', ''D3''] (7 / 18), tried = search_log\<rparr>"
    unfolding donor_pool_search_def search_pre Let_def
    by (simp add: search_candidates search_steps search_greedy del: One_nat_def greedy.simps)
  have u: "sqrt (5 / 12) < 65 / 100" "sqrt (7 / 18) < 63 / 100" "sqrt (3 / 8) < 62 / 100"
    by (rule real_less_lsqrt; simp add: power2_eq_square)+
  have l: "70 / 100 < sqrt (1 / 2)" "64 / 100 < sqrt (5 / 12)" "623 / 1000 < sqrt (7 / 18)"
    by (rule real_less_rsqrt; simp add: power2_eq_square)+
  have "sqrt (1 / 2) - sqrt (5 / 12) > 1 / 10 ^ 6" using u(1) l(1) by simp
  moreover have "sqrt (5 / 12) - sqrt (7 / 18) > 1 / 10 ^ 6" using u(2) l(2) by simp
  moreover have "sqrt (7 / 18) - sqrt (3 / 8) > 1 / 10 ^ 6" using u(3) l(3) by simp
  ultimately show ?thesis using a search_candidates search_trials(10) by simp
qed

section \<open>Difference in differences and the order of the rows\<close>

lemma zip4_map:
  "zip (map a d) (zip (map b d) (zip (map c d) (map e d))) = map (\<lambda>r. (a r, b r, c r, e r)) d"
  by (induction d) simp_all

lemma did_cluster_labels:
  "cluster_labels (did_design d x_cols cl) =
     map (\<lambda>r. case cl of None \<Rightarrow> None | Some g \<Rightarrow> Some (g r)) d"
  by (simp add: cluster_labels_def did_design_def cov_of_def split: option.splits)

lemma did_design_obs:
  "design_obs (did_design d x_cols cl) =
     image_mset (\<lambda>r. ([real_of_int (fe_treated r), real_of_int (fe_post r),
                         real_of_int (fe_treated r * fe_post r)] @ map (fe_x r) x_cols,
                        [fe_unit r, fe_time r], fe_y r,
                        case cl of None \<Rightarrow> None | Some g \<Rightarrow> Some (g r))) (mset d)"
  unfolding design_obs_def did_cluster_labels
  by (simp add: did_design_def zip4_map flip: mset_map)

lemma did_design_rectangular: "rectangular (did_design d x_cols cl)"
  by (simp add: rectangular_def did_cluster_labels) (simp add: did_design_def)

lemma did_design_kind:
  "cov_kind (dm_cov (did_design d' x_cols cl)) = cov_kind (dm_cov (did_design d x_cols cl))"
  by (simp add: did_design_def cov_of_def split: option.splits)

lemma did_design_names:
  "dm_names (did_design d' x_cols cl) = dm_names (did_design d x_cols cl)"
  by (simp add: did_design_def)

subsection \<open>C9: the effect does not depend on the order of the rows\<close>

text \<open>
  Claim C9. For every panel and every permutation of its rows, and every regression
  backbone that reads a design as the multiset of its observations (as least squares in
  exact arithmetic does), \<open>difference_in_differences\<close> returns the same result on both, and
  so the same ATT: the design built from the permuted panel has the same regressors, the
  same kind of covariance and the same observations.
\<close>

theorem did_att_row_order:
  assumes "row_order_blind ols" and "mset d' = mset d"
  shows "difference_in_differences ols d' x_cols cl = difference_in_differences ols d x_cols cl
       \<and> map_sum id att (difference_in_differences ols d' x_cols cl)
           = map_sum id att (difference_in_differences ols d x_cols cl)"
proof -
  have "design_obs (did_design d' x_cols cl) = design_obs (did_design d x_cols cl)"
    by (simp add: did_design_obs assms(2))
  then have "ols (did_design d' x_cols cl) = ols (did_design d x_cols cl)"
    using assms(1) did_design_rectangular did_design_kind did_design_names
    unfolding row_order_blind_def by blast
  then show ?thesis by (simp add: difference_in_differences_def)
qed

lemma zip4_proj:
  assumes "length as = length cs" "length bs = length cs" "length ds = length cs"
  shows "map (\<lambda>(a, b, c, d). (a, c)) (zip as (zip bs (zip cs ds))) = zip as cs"
  using assms by (intro nth_equalityI) simp_all

lemma moment_fit_row_order_blind: "row_order_blind moment_fit"
  unfolding row_order_blind_def
proof (intro allI impI)
  fix dm dm'
  assume a: "rectangular dm \<and> rectangular dm' \<and> dm_names dm' = dm_names dm
         \<and> cov_kind (dm_cov dm') = cov_kind (dm_cov dm) \<and> design_obs dm' = design_obs dm"
  let ?z = "\<lambda>dm. zip (dm_rows dm) (zip (dm_fe dm) (zip (dm_y dm) (cluster_labels dm)))"
  have ms: "mset (?z dm') = mset (?z dm)" using a by (simp add: design_obs_def)
  have len: "length (?z dm) = length (dm_y dm)" "length (?z dm') = length (dm_y dm')"
    using a by (simp_all add: rectangular_def)
  have "length (?z dm') = length (?z dm)" using ms by (metis size_mset)
  then have ly: "length (dm_y dm') = length (dm_y dm)" using len by simp
  have pr: "zip (dm_rows dm) (dm_y dm) = map (\<lambda>(a, b, c, d). (a, c)) (?z dm)"
       "zip (dm_rows dm') (dm_y dm') = map (\<lambda>(a, b, c, d). (a, c)) (?z dm')"
    using a by (simp_all add: rectangular_def zip4_proj)
  have sums: "(\<Sum>(row, y) \<leftarrow> zip (dm_rows dm') (dm_y dm'). row ! j * y)
            = (\<Sum>(row, y) \<leftarrow> zip (dm_rows dm) (dm_y dm). row ! j * y)" for j
    unfolding pr map_map
    using ms by (rule sum_list_map_mset)
  show "moment_fit dm' = moment_fit dm"
    using a ly sums by (simp add: moment_fit_def)
qed

theorem did_att_row_order_witness:
  "mset (rev es_rows) = mset es_rows
   \<and> map_sum id att (difference_in_differences moment_fit es_rows [] None) = Inr 3
   \<and> map_sum id att (difference_in_differences moment_fit (rev es_rows) [] None) = Inr 3"
proof -
  have m: "mset (rev es_rows) = mset es_rows" by simp
  have e: "map_sum id att (difference_in_differences moment_fit es_rows [] None) = Inr 3"
    by (simp add: difference_in_differences_def did_design_def moment_fit_def at_name_def
        at_pos_def es_rows_def cov_of_def upt_rec)
  from did_att_row_order [OF moment_fit_row_order_blind m, of "[]" None] e m
  show ?thesis by simp
qed

end
